theory Spec2Isabelle
  imports Main "HOL-Library.AList"
begin

section \<open>Values, documents and errors\<close>

text \<open>
  A Python \<open>str\<close> is held as the list of its UTF-8 bytes, so a literal with a character
  outside ASCII is written byte by byte. Equality of two strings is equality of the byte
  lists. Slicing counts characters, not bytes: \<open>take_chars n s\<close> is \<open>s[:n]\<close>, which keeps
  the bytes up to the end of the \<open>n\<close>-th character (a byte in the range 0x80..0xBF
  continues the character before it).
\<close>

definition is_continuation :: "char \<Rightarrow> bool" where
  "is_continuation c = (128 \<le> (of_char c :: nat) \<and> (of_char c :: nat) < 192)"

fun take_chars :: "nat \<Rightarrow> string \<Rightarrow> string" where
  "take_chars n [] = []"
| "take_chars n (c # cs) =
     (if is_continuation c then c # take_chars n cs
      else (case n of 0 \<Rightarrow> [] | Suc m \<Rightarrow> c # take_chars m cs))"

text \<open>
  The values a stored document or a JSON body holds. A document is a field map; it is
  kept as an association list, read with \<open>map_of\<close> (the first binding of a key counts).
\<close>

datatype bson =
    BNull
  | BBool bool
  | BInt int
  | BStr string
  | BDate nat
  | BObjectId nat
  | BArr "bson list"
  | BDoc "(string \<times> bson) list"

type_synonym doc = "(string \<times> bson) list"

text \<open>\<open>p.get(k)\<close> and \<open>p.get(k, default)\<close> of a Python dict.\<close>

definition get :: "doc \<Rightarrow> string \<Rightarrow> bson" where
  "get p k = (case map_of p k of None \<Rightarrow> BNull | Some v \<Rightarrow> v)"

definition get_default :: "doc \<Rightarrow> string \<Rightarrow> bson \<Rightarrow> bson" where
  "get_default p k dflt = (case map_of p k of None \<Rightarrow> dflt | Some v \<Rightarrow> v)"

text \<open>
  Everything a handler can raise. \<open>HTTPException\<close> carries the status code and the detail;
  \<open>RequestValidationError\<close> is the rejection of a request body before the handler runs and
  carries the offending fields; \<open>ValidationError\<close> is a pydantic model refusing its
  arguments inside a handler; \<open>NotInitialized\<close> and \<open>StoreError\<close> come from the data
  access layer; \<open>AttributeError\<close> is an attribute read on \<open>None\<close>.
\<close>

datatype error =
    HTTPException nat string
  | RequestValidationError "string list"
  | ValidationError
  | NotInitialized
  | StoreError string
  | AttributeError

text \<open>The status the framework answers with when a handler ends in an error.\<close>

fun status_code :: "error \<Rightarrow> nat" where
  "status_code (HTTPException code detail) = code"
| "status_code (RequestValidationError flds) = 422"
| "status_code e = 500"

definition sbind :: "error + 'a \<Rightarrow> ('a \<Rightarrow> error + 'b) \<Rightarrow> error + 'b" where
  "sbind m f = (case m of Inl e \<Rightarrow> Inl e | Inr x \<Rightarrow> f x)"

text \<open>A list comprehension whose element expression may raise: the first error ends it.\<close>

fun collect :: "('a \<Rightarrow> error + 'b) \<Rightarrow> 'a list \<Rightarrow> error + 'b list" where
  "collect f [] = Inr []"
| "collect f (x # xs) =
     (case f x of
        Inl e \<Rightarrow> Inl e
      | Inr y \<Rightarrow> (case collect f xs of Inl e \<Rightarrow> Inl e | Inr ys \<Rightarrow> Inr (y # ys)))"


section \<open>Schemas (schemas.py) and response models (main.py)\<close>

record Stat =
  label :: string
  "value" :: string

record Project =
  title :: string
  slug :: string
  description :: string
  tags :: "string list"
  stack :: "string list"
  impact :: "string option"
  cover_url :: "string option"
  github_url :: "string option"
  demo_url :: "string option"
  case_study :: "string option"
  stats :: "Stat list"
  featured :: bool

record Post =
  title :: string
  slug :: string
  excerpt :: "string option"
  content :: string
  tags :: "string list"
  published_at :: "nat option"

record ContactMessage =
  name :: string
  email :: string
  message :: string

record ProjectResponse =
  title :: string
  slug :: string
  description :: string
  tags :: "string list"
  stack :: "string list"
  impact :: "string option"
  cover_url :: "string option"
  github_url :: "string option"
  demo_url :: "string option"
  featured :: bool

record PostResponse =
  title :: string
  slug :: string
  excerpt :: "string option"
  content :: string
  tags :: "string list"
  published_at :: "nat option"

record ContactRequest =
  name :: string
  email :: string
  message :: string

text \<open>The field map of a schema record (what the data access layer stores).\<close>

definition opt_str :: "string option \<Rightarrow> bson" where
  "opt_str s = (case s of None \<Rightarrow> BNull | Some x \<Rightarrow> BStr x)"

definition opt_date :: "nat option \<Rightarrow> bson" where
  "opt_date t = (case t of None \<Rightarrow> BNull | Some x \<Rightarrow> BDate x)"

definition Stat_dict :: "Stat \<Rightarrow> doc" where
  "Stat_dict s = [(''label'', BStr (label s)), (''value'', BStr (value s))]"

definition Project_dict :: "Project \<Rightarrow> doc" where
  "Project_dict p =
     [(''title'', BStr (Project.title p)),
      (''slug'', BStr (Project.slug p)),
      (''description'', BStr (Project.description p)),
      (''tags'', BArr (map BStr (Project.tags p))),
      (''stack'', BArr (map BStr (Project.stack p))),
      (''impact'', opt_str (Project.impact p)),
      (''cover_url'', opt_str (Project.cover_url p)),
      (''github_url'', opt_str (Project.github_url p)),
      (''demo_url'', opt_str (Project.demo_url p)),
      (''case_study'', opt_str (Project.case_study p)),
      (''stats'', BArr (map (\<lambda>s. BDoc (Stat_dict s)) (Project.stats p))),
      (''featured'', BBool (Project.featured p))]"

definition Post_dict :: "Post \<Rightarrow> doc" where
  "Post_dict p =
     [(''title'', BStr (Post.title p)),
      (''slug'', BStr (Post.slug p)),
      (''excerpt'', opt_str (Post.excerpt p)),
      (''content'', BStr (Post.content p)),
      (''tags'', BArr (map BStr (Post.tags p))),
      (''published_at'', opt_date (Post.published_at p))]"

definition ContactMessage_dict :: "ContactMessage \<Rightarrow> doc" where
  "ContactMessage_dict m =
     [(''name'', BStr (ContactMessage.name m)),
      (''email'', BStr (ContactMessage.email m)),
      (''message'', BStr (ContactMessage.message m))]"

definition ContactRequest_dict :: "ContactRequest \<Rightarrow> doc" where
  "ContactRequest_dict m =
     [(''name'', BStr (ContactRequest.name m)),
      (''email'', BStr (ContactRequest.email m)),
      (''message'', BStr (ContactRequest.message m))]"

text \<open>
  The field validators of the models. A value of the declared type is accepted as it is
  and any other value is refused; the coercions pydantic applies to values of other types
  (a number given for a \<open>str\<close> or a \<open>bool\<close> field, a string given for a \<open>datetime\<close>)
  are library behaviour outside this model.
\<close>

fun val_str :: "bson \<Rightarrow> error + string" where
  "val_str (BStr s) = Inr s"
| "val_str v = Inl ValidationError"

fun val_opt_str :: "bson \<Rightarrow> error + string option" where
  "val_opt_str BNull = Inr None"
| "val_opt_str (BStr s) = Inr (Some s)"
| "val_opt_str v = Inl ValidationError"

fun val_str_list :: "bson \<Rightarrow> error + string list" where
  "val_str_list (BArr xs) = collect val_str xs"
| "val_str_list v = Inl ValidationError"

fun val_bool :: "bson \<Rightarrow> error + bool" where
  "val_bool (BBool b) = Inr b"
| "val_bool v = Inl ValidationError"

fun val_opt_datetime :: "bson \<Rightarrow> error + nat option" where
  "val_opt_datetime BNull = Inr None"
| "val_opt_datetime (BDate t) = Inr (Some t)"
| "val_opt_datetime v = Inl ValidationError"


section \<open>The document store and the data access layer\<close>

text \<open>
  The store handle \<open>db\<close> is created by the \<open>database\<close> module, which is outside the
  sources at hand; it is \<open>None\<close> when no store was configured. The handle is modelled by
  what the program observes of it: the outcome of reading its \<open>name\<close> attribute, whether
  the server can be reached (\<open>fault = Some msg\<close>: every operation raises an exception
  whose text is \<open>msg\<close>), the named collections with their documents in insertion order,
  and the next identifier the store hands out.
\<close>

datatype attr = NoAttribute | Attribute string | AttributeRaises string

record database =
  name_attr :: attr
  fault :: "string option"
  colls :: "(string \<times> doc list) list"
  next_oid :: nat

text \<open>
  The calls the handlers make on the store, in the order they are made, whatever their
  outcome: \<open>db.<c>.count_documents({})\<close>, \<open>create_document(c, record)\<close> and
  \<open>get_documents(c, filter, limit)\<close>.
\<close>

datatype call =
    CountDocuments string
  | CreateDocument string doc
  | GetDocuments string doc "nat option"

record app_state =
  db :: "database option"
  calls :: "call list"

definition returns :: "'a \<Rightarrow> app_state \<Rightarrow> (error + 'a) \<times> app_state" where
  "returns x st = (Inr x, st)"

definition raises :: "error \<Rightarrow> app_state \<Rightarrow> (error + 'a) \<times> app_state" where
  "raises e st = (Inl e, st)"

definition and_then ::
  "(app_state \<Rightarrow> (error + 'a) \<times> app_state) \<Rightarrow> ('a \<Rightarrow> app_state \<Rightarrow> (error + 'b) \<times> app_state)
     \<Rightarrow> app_state \<Rightarrow> (error + 'b) \<times> app_state" where
  "and_then m f st = (case m st of (Inl e, st') \<Rightarrow> (Inl e, st') | (Inr x, st') \<Rightarrow> f x st')"

definition log_call :: "call \<Rightarrow> app_state \<Rightarrow> app_state" where
  "log_call c st = st\<lparr>calls := calls st @ [c]\<rparr>"

definition collection :: "database \<Rightarrow> string \<Rightarrow> doc list" where
  "collection d c = (case map_of (colls d) c of None \<Rightarrow> [] | Some ds \<Rightarrow> ds)"

definition list_collection_names :: "database \<Rightarrow> error + string list" where
  "list_collection_names d =
     (case fault d of Some msg \<Rightarrow> Inl (StoreError msg) | None \<Rightarrow> Inr (map fst (colls d)))"

text \<open>\<open>db.<c>.count_documents({})\<close>: the number of documents of collection \<open>c\<close>.\<close>

definition count_documents :: "string \<Rightarrow> app_state \<Rightarrow> (error + nat) \<times> app_state" where
  "count_documents c st =
     (let st1 = log_call (CountDocuments c) st in
      case db st of
        None \<Rightarrow> (Inl AttributeError, st1)
      | Some d \<Rightarrow>
          (case fault d of
             Some msg \<Rightarrow> (Inl (StoreError msg), st1)
           | None \<Rightarrow> (Inr (length (collection d c)), st1)))"

text \<open>
  The store hands out identifiers from a counter. The text of an identifier is taken to
  be its 24 hexadecimal digits, the form a document store prints an object identifier
  in; the spec only says that \<open>create_document\<close> returns the identifier as a string.
\<close>

definition hex_digit :: "nat \<Rightarrow> char" where
  "hex_digit k = (''0123456789abcdef'' ! (k mod 16))"

fun hex_digits :: "nat \<Rightarrow> nat \<Rightarrow> string" where
  "hex_digits 0 n = []"
| "hex_digits (Suc k) n = hex_digits k (n div 16) @ [hex_digit n]"

definition str_oid :: "nat \<Rightarrow> string" where
  "str_oid n = hex_digits 24 n"

text \<open>
  Whether a document matches a filter: every field of the filter is equal to the
  document's field, or is a member of it when the document's field is a list. The empty
  filter matches every document.
\<close>

fun field_matches :: "bson option \<Rightarrow> bson \<Rightarrow> bool" where
  "field_matches None v = (v = BNull)"
| "field_matches (Some (BArr xs)) v = (v \<in> set xs \<or> v = BArr xs)"
| "field_matches (Some w) v = (w = v)"

definition matches :: "doc \<Rightarrow> doc \<Rightarrow> bool" where
  "matches filt p = list_all (\<lambda>(k, v). field_matches (map_of p k) v) filt"

definition cap :: "nat option \<Rightarrow> 'a list \<Rightarrow> 'a list" where
  "cap limit xs = (case limit of None \<Rightarrow> xs | Some n \<Rightarrow> take n xs)"

definition insert_one :: "string \<Rightarrow> doc \<Rightarrow> database \<Rightarrow> database" where
  "insert_one c data d =
     d\<lparr>colls := AList.update c (collection d c @ [(''_id'', BObjectId (next_oid d)) # data]) (colls d),
       next_oid := Suc (next_oid d)\<rparr>"

text \<open>
  Modelled from the spec: \<open>create_document\<close> of the absent \<open>database\<close> module.
  "Inserts the record's validated field map into the named collection; returns the newly
  assigned identifier as a string. Fails (propagates) if the underlying store is
  unreachable." With a handle that was never established the operation fails when
  invoked.
\<close>

definition create_document :: "string \<Rightarrow> doc \<Rightarrow> app_state \<Rightarrow> (error + string) \<times> app_state" where
  "create_document c data st =
     (let st1 = log_call (CreateDocument c data) st in
      case db st of
        None \<Rightarrow> (Inl NotInitialized, st1)
      | Some d \<Rightarrow>
          (case fault d of
             Some msg \<Rightarrow> (Inl (StoreError msg), st1)
           | None \<Rightarrow> (Inr (str_oid (next_oid d)), st1\<lparr>db := Some (insert_one c data d)\<rparr>)))"

text \<open>
  Modelled from the spec: \<open>get_documents\<close> of the absent \<open>database\<close> module.
  "Returns a sequence of raw field maps matching the filter (empty filter = all
  records), ordered by the store's natural order (insertion order in practice),
  optionally capped to \<open>limit\<close> records."
\<close>

definition get_documents ::
  "string \<Rightarrow> doc \<Rightarrow> nat option \<Rightarrow> app_state \<Rightarrow> (error + doc list) \<times> app_state" where
  "get_documents c filt limit st =
     (let st1 = log_call (GetDocuments c filt limit) st in
      case db st of
        None \<Rightarrow> (Inl NotInitialized, st1)
      | Some d \<Rightarrow>
          (case fault d of
             Some msg \<Rightarrow> (Inl (StoreError msg), st1)
           | None \<Rightarrow> (Inr (cap limit (filter (matches filt) (collection d c))), st1)))"


section \<open>The diagnostic route \<open>GET /test\<close>\<close>

record diagnostics =
  backend :: string
  database :: string
  database_url :: "string option"
  database_name :: "string option"
  connection_status :: string
  collections :: "string list"

definition check_mark :: string where
  "check_mark = [CHR 0xE2, CHR 0x9C, CHR 0x85]"

definition cross_mark :: string where
  "cross_mark = [CHR 0xE2, CHR 0x9D, CHR 0x8C]"

definition warning_sign :: string where
  "warning_sign = [CHR 0xE2, CHR 0x9A, CHR 0xA0, CHR 0xEF, CHR 0xB8, CHR 0x8F]"

text \<open>
  \<open>str(e)\<close> of an exception the store raised.
\<close>

fun str_error :: "error \<Rightarrow> string" where
  "str_error (StoreError msg) = msg"
| "str_error (HTTPException code detail) = detail"
| "str_error e = []"

text \<open>
  The body of the outer \<open>try\<close> of \<open>test_database\<close>. It updates the response in place,
  so the updates made before an exception stay; the result is the exception text, if
  one escapes, and the response as it then is. \<open>env\<close> is the value of the environment
  variable \<open>DATABASE_URL\<close>.
\<close>

definition test_database_try ::
  "string option \<Rightarrow> database option \<Rightarrow> diagnostics \<Rightarrow> string option \<times> diagnostics" where
  "test_database_try env handle response =
     (case handle of
        Some d \<Rightarrow>
          (let response = response\<lparr>database := check_mark @ '' Available''\<rparr>;
               response = response\<lparr>database_url :=
                 Some (if env \<noteq> None \<and> env \<noteq> Some [] then check_mark @ '' Set''
                       else cross_mark @ '' Not Set'')\<rparr>
           in case name_attr d of
                AttributeRaises msg \<Rightarrow> (Some msg, response)
              | a \<Rightarrow>
                 (let response = response\<lparr>database_name :=
                        Some (case a of Attribute n \<Rightarrow> n | _ \<Rightarrow> check_mark @ '' Connected'')\<rparr>;
                      response = response\<lparr>connection_status := ''Connected''\<rparr>
                  in case list_collection_names d of
                       Inr cs \<Rightarrow>
                         (None, response\<lparr>collections := take 10 cs,
                                          database := check_mark @ '' Connected & Working''\<rparr>)
                     | Inl e \<Rightarrow>
                         (None, response\<lparr>database :=
                            warning_sign @ '' Connected but Error: '' @ take_chars 80 (str_error e)\<rparr>)))
      | None \<Rightarrow>
          (None, response\<lparr>database := warning_sign @ '' Available but not initialized''\<rparr>))"

definition test_database :: "string option \<Rightarrow> database option \<Rightarrow> error + diagnostics" where
  "test_database env handle =
     (let response = \<lparr>backend = check_mark @ '' Running'',
                      database = cross_mark @ '' Not Available'',
                      database_url = None,
                      database_name = None,
                      connection_status = ''Not Connected'',
                      collections = []\<rparr>
      in case test_database_try env handle response of
           (Some msg, response) \<Rightarrow>
             Inr (response\<lparr>database := cross_mark @ '' Error: '' @ take_chars 80 msg\<rparr>)
         | (None, response) \<Rightarrow> Inr response)"


section \<open>The seed routine\<close>

definition down_arrow :: string where
  "down_arrow = [CHR 0xE2, CHR 0x86, CHR 0x93]"

definition up_arrow :: string where
  "up_arrow = [CHR 0xE2, CHR 0x86, CHR 0x91]"

definition project_examples :: "Project list" where
  "project_examples =
     [\<lparr>Project.title = ''Real-time Vector Search Service'',
       slug = ''vector-search'',
       description = ''Low-latency vector DB layer with HNSW + PQ, tuned for p95 < 20ms.'',
       tags = [''AI'', ''Infra''],
       stack = [''Rust'', ''gRPC'', ''ANN'', ''Redis'', ''Docker''],
       impact = Some (''p95 latency '' @ down_arrow @ '' 38% at 10k QPS''),
       cover_url = Some ''/covers/vector.jpg'',
       github_url = Some ''https://github.com/example/vector-search'',
       demo_url = None,
       case_study = None,
       stats = [],
       featured = True\<rparr>,
      \<lparr>Project.title = ''LLM-Assisted Code Review Bot'',
       slug = ''code-review-bot'',
       description = ''Context-aware PR reviewer with inline suggestions and risk flags.'',
       tags = [''AI'', ''Open Source'', ''Web''],
       stack = [''Python'', ''FastAPI'', ''OpenAI'', ''Postgres''],
       impact = Some (''review time '' @ down_arrow @ '' 45% across 120+ PRs''),
       cover_url = Some ''/covers/bot.jpg'',
       github_url = Some ''https://github.com/example/code-review-bot'',
       demo_url = None,
       case_study = None,
       stats = [],
       featured = False\<rparr>,
      \<lparr>Project.title = ''Telemetry Pipeline for Edge Devices'',
       slug = ''edge-telemetry'',
       description = ''Exactly-once ingestion with Kafka + Flink; real-time dashboards.'',
       tags = [''Infra'', ''Data''],
       stack = [''Kafka'', ''Flink'', ''Debezium'', ''ClickHouse''],
       impact = Some (''throughput '' @ up_arrow @ '' 3.2x, data loss ~0%''),
       cover_url = Some ''/covers/telemetry.jpg'',
       github_url = None,
       demo_url = None,
       case_study = None,
       stats = [],
       featured = False\<rparr>]"

text \<open>\<open>now\<close> is what \<open>datetime.utcnow()\<close> reads when the list is built.\<close>

definition post_examples :: "nat \<Rightarrow> Post list" where
  "post_examples now =
     [\<lparr>Post.title = ''Notes on low-latency systems'',
       slug = ''low-latency-notes'',
       excerpt = Some ''What actually moves p95 and p99 in real systems.'',
       content = ''# Low-latency notes'' @ [CHR 0x0A] @ ''A practical list of levers that matter.'',
       tags = [''systems'', ''perf''],
       published_at = Some now\<rparr>]"

text \<open>\<open>for x in xs: create_document(c, x)\<close>: an exception ends the loop.\<close>

fun create_each :: "string \<Rightarrow> doc list \<Rightarrow> app_state \<Rightarrow> (error + unit) \<times> app_state" where
  "create_each c [] st = (Inr (), st)"
| "create_each c (x # xs) st =
     (case create_document c x st of
        (Inl e, st') \<Rightarrow> (Inl e, st')
      | (Inr new_id, st') \<Rightarrow> create_each c xs st')"

definition ensure_seed_data :: "nat \<Rightarrow> app_state \<Rightarrow> (error + unit) \<times> app_state" where
  "ensure_seed_data now st =
     (if db st = None then returns () st
      else
        and_then (count_documents ''project'') (\<lambda>n.
        and_then (if n = 0 then create_each ''project'' (map Project_dict project_examples)
                  else returns ()) (\<lambda>u.
        and_then (count_documents ''post'') (\<lambda>m.
          if m = 0 then create_each ''post'' (map Post_dict (post_examples now))
          else returns ()))) st)"


section \<open>Project and blog endpoints\<close>

definition lift :: "error + 'a \<Rightarrow> app_state \<Rightarrow> (error + 'a) \<times> app_state" where
  "lift r st = (r, st)"

text \<open>
  The construction \<open>ProjectResponse(title=p.get("title"), ..., featured=p.get("featured", False))\<close>
  that both project handlers apply to a raw document.
\<close>

definition ProjectResponse_of :: "doc \<Rightarrow> error + ProjectResponse" where
  "ProjectResponse_of p =
     sbind (val_str (get p ''title'')) (\<lambda>v_title.
     sbind (val_str (get p ''slug'')) (\<lambda>v_slug.
     sbind (val_str (get p ''description'')) (\<lambda>v_description.
     sbind (val_str_list (get_default p ''tags'' (BArr []))) (\<lambda>v_tags.
     sbind (val_str_list (get_default p ''stack'' (BArr []))) (\<lambda>v_stack.
     sbind (val_opt_str (get p ''impact'')) (\<lambda>v_impact.
     sbind (val_opt_str (get p ''cover_url'')) (\<lambda>v_cover_url.
     sbind (val_opt_str (get p ''github_url'')) (\<lambda>v_github_url.
     sbind (val_opt_str (get p ''demo_url'')) (\<lambda>v_demo_url.
     sbind (val_bool (get_default p ''featured'' (BBool False))) (\<lambda>v_featured.
       Inr \<lparr>ProjectResponse.title = v_title,
            slug = v_slug,
            description = v_description,
            tags = v_tags,
            stack = v_stack,
            impact = v_impact,
            cover_url = v_cover_url,
            github_url = v_github_url,
            demo_url = v_demo_url,
            featured = v_featured\<rparr>))))))))))"

text \<open>The same for \<open>PostResponse(**{...})\<close> in the blog handlers.\<close>

definition PostResponse_of :: "doc \<Rightarrow> error + PostResponse" where
  "PostResponse_of po =
     sbind (val_str (get po ''title'')) (\<lambda>v_title.
     sbind (val_str (get po ''slug'')) (\<lambda>v_slug.
     sbind (val_opt_str (get po ''excerpt'')) (\<lambda>v_excerpt.
     sbind (val_str (get po ''content'')) (\<lambda>v_content.
     sbind (val_str_list (get_default po ''tags'' (BArr []))) (\<lambda>v_tags.
     sbind (val_opt_datetime (get po ''published_at'')) (\<lambda>v_published_at.
       Inr \<lparr>PostResponse.title = v_title,
            slug = v_slug,
            excerpt = v_excerpt,
            content = v_content,
            tags = v_tags,
            published_at = v_published_at\<rparr>))))))"

text \<open>
  \<open>tag\<close> is the optional query parameter: \<open>None\<close> when the request has none. The test
  \<open>if tag\<close> fails for \<open>None\<close> and for the empty string.
\<close>

definition list_projects ::
  "string option \<Rightarrow> nat \<Rightarrow> app_state \<Rightarrow> (error + ProjectResponse list) \<times> app_state" where
  "list_projects tag now =
     and_then (ensure_seed_data now) (\<lambda>u.
       let filt = (case tag of
                     None \<Rightarrow> []
                   | Some t \<Rightarrow> if t \<noteq> [] then [(''tags'', BStr t)] else [])
       in and_then (get_documents ''project'' filt None) (\<lambda>projects.
            lift (collect ProjectResponse_of projects)))"

definition get_project ::
  "string \<Rightarrow> nat \<Rightarrow> app_state \<Rightarrow> (error + ProjectResponse) \<times> app_state" where
  "get_project slug_param now =
     and_then (ensure_seed_data now) (\<lambda>u.
     and_then (get_documents ''project'' [(''slug'', BStr slug_param)] (Some 1)) (\<lambda>projects.
       case projects of
         [] \<Rightarrow> raises (HTTPException 404 ''Project not found'')
       | p # rest \<Rightarrow> lift (ProjectResponse_of p)))"

definition list_posts ::
  "string option \<Rightarrow> nat \<Rightarrow> app_state \<Rightarrow> (error + PostResponse list) \<times> app_state" where
  "list_posts tag now =
     and_then (ensure_seed_data now) (\<lambda>u.
       let filt = (case tag of
                     None \<Rightarrow> []
                   | Some t \<Rightarrow> if t \<noteq> [] then [(''tags'', BStr t)] else [])
       in and_then (get_documents ''post'' filt None) (\<lambda>posts.
            lift (collect PostResponse_of posts)))"

definition get_post ::
  "string \<Rightarrow> nat \<Rightarrow> app_state \<Rightarrow> (error + PostResponse) \<times> app_state" where
  "get_post slug_param now =
     and_then (ensure_seed_data now) (\<lambda>u.
     and_then (get_documents ''post'' [(''slug'', BStr slug_param)] (Some 1)) (\<lambda>posts.
       case posts of
         [] \<Rightarrow> raises (HTTPException 404 ''Post not found'')
       | po # rest \<Rightarrow> lift (PostResponse_of po)))"


section \<open>Contact endpoint\<close>

text \<open>
  \<open>EmailStr\<close> is a type of the pydantic library: whether a string is a syntactically
  valid address is taken as the parameter \<open>valid_email\<close>. A field of a body counts when
  it is present and a string.
\<close>

definition str_field :: "doc \<Rightarrow> string \<Rightarrow> string option" where
  "str_field body k = (case map_of body k of Some (BStr s) \<Rightarrow> Some s | _ \<Rightarrow> None)"

definition offending_fields :: "(string \<Rightarrow> bool) \<Rightarrow> doc \<Rightarrow> string list" where
  "offending_fields valid_email body =
     (case str_field body ''name'' of None \<Rightarrow> [''name''] | Some n \<Rightarrow> []) @
     (case str_field body ''email'' of
        None \<Rightarrow> [''email'']
      | Some e \<Rightarrow> if valid_email e then [] else [''email'']) @
     (case str_field body ''message'' of None \<Rightarrow> [''message''] | Some m \<Rightarrow> [])"

text \<open>
  The framework builds the handler's argument from the JSON body with the model
  \<open>ContactRequest\<close> and answers with a request validation error if the model refuses it;
  the handler only runs on a body the model accepts.
\<close>

definition ContactRequest_parse :: "(string \<Rightarrow> bool) \<Rightarrow> doc \<Rightarrow> error + ContactRequest" where
  "ContactRequest_parse valid_email body =
     (case (str_field body ''name'', str_field body ''email'', str_field body ''message'') of
        (Some n, Some e, Some m) \<Rightarrow>
          if offending_fields valid_email body = []
          then Inr \<lparr>ContactRequest.name = n, email = e, message = m\<rparr>
          else Inl (RequestValidationError (offending_fields valid_email body))
      | other \<Rightarrow> Inl (RequestValidationError (offending_fields valid_email body)))"

text \<open>\<open>ContactMessageSchema(**payload.dict())\<close>: the schema validates its arguments again.\<close>

definition ContactMessage_of :: "(string \<Rightarrow> bool) \<Rightarrow> doc \<Rightarrow> error + ContactMessage" where
  "ContactMessage_of valid_email kwargs =
     (case (str_field kwargs ''name'', str_field kwargs ''email'', str_field kwargs ''message'') of
        (Some n, Some e, Some m) \<Rightarrow>
          if valid_email e
          then Inr \<lparr>ContactMessage.name = n, email = e, message = m\<rparr>
          else Inl ValidationError
      | other \<Rightarrow> Inl ValidationError)"

definition submit_contact ::
  "(string \<Rightarrow> bool) \<Rightarrow> ContactRequest \<Rightarrow> app_state \<Rightarrow> (error + (string \<times> string) list) \<times> app_state" where
  "submit_contact valid_email payload =
     (case ContactMessage_of valid_email (ContactRequest_dict payload) of
        Inl e \<Rightarrow> raises e
      | Inr doc \<Rightarrow>
          and_then (create_document ''contactmessage'' (ContactMessage_dict doc)) (\<lambda>msg_id.
            returns [(''status'', ''ok''), (''id'', msg_id)]))"

definition post_contact ::
  "(string \<Rightarrow> bool) \<Rightarrow> doc \<Rightarrow> app_state \<Rightarrow> (error + (string \<times> string) list) \<times> app_state" where
  "post_contact valid_email body =
     (case ContactRequest_parse valid_email body of
        Inl e \<Rightarrow> raises e
      | Inr payload \<Rightarrow> submit_contact valid_email payload)"


section \<open>Describing the store after a request\<close>

text \<open>
  The documents of a collection after the field maps \<open>xs\<close> were inserted one after the
  other, the first with the identifier \<open>n\<close>.
\<close>

fun with_ids :: "nat \<Rightarrow> doc list \<Rightarrow> doc list" where
  "with_ids n [] = []"
| "with_ids n (x # xs) = ((''_id'', BObjectId n) # x) # with_ids (Suc n) xs"

fun insert_each :: "string \<Rightarrow> doc list \<Rightarrow> database \<Rightarrow> database" where
  "insert_each c [] d = d"
| "insert_each c (x # xs) d = insert_each c xs (insert_one c x d)"

text \<open>The store a reachable store becomes under the seed routine, and the calls made.\<close>

definition seeded :: "nat \<Rightarrow> database \<Rightarrow> database" where
  "seeded now d =
     (let d1 = (if collection d ''project'' = []
                then insert_each ''project'' (map Project_dict project_examples) d else d)
      in if collection d1 ''post'' = []
         then insert_each ''post'' (map Post_dict (post_examples now)) d1 else d1)"

definition seed_calls :: "nat \<Rightarrow> database \<Rightarrow> call list" where
  "seed_calls now d =
     [CountDocuments ''project''] @
     (if collection d ''project'' = []
      then map (CreateDocument ''project'') (map Project_dict project_examples) else []) @
     [CountDocuments ''post''] @
     (if collection d ''post'' = []
      then map (CreateDocument ''post'') (map Post_dict (post_examples now)) else [])"

text \<open>
  Concrete stores for the examples below: an empty reachable store, a state without a
  handle, and a store that cannot be reached.
\<close>

definition empty_db :: database where
  "empty_db = \<lparr>name_attr = Attribute ''portfolio'', fault = None, colls = [], next_oid = 0\<rparr>"

definition empty_state :: app_state where
  "empty_state = \<lparr>db = Some empty_db, calls = []\<rparr>"

definition uninitialized_state :: app_state where
  "uninitialized_state = \<lparr>db = None, calls = []\<rparr>"
definition unreachable_db :: database where
  "unreachable_db = empty_db\<lparr>fault := Some ''localhost:27017: [Errno 111] Connection refused''\<rparr>"

text \<open>
  A stand-in for the address check of \<open>EmailStr\<close> in the examples, and two request
  bodies.
\<close>

definition has_at_sign :: "string \<Rightarrow> bool" where
  "has_at_sign e = (CHR ''@'' \<in> set e)"

definition jane_body :: doc where
  "jane_body = [(''name'', BStr ''Jane''), (''email'', BStr ''jane@example.com''), (''message'', BStr ''hi'')]"

definition bad_body :: doc where
  "bad_body = [(''name'', BStr ''Jane''), (''email'', BStr ''not-an-email''), (''message'', BStr ''hi'')]"

text \<open>
  Every stored document carries an identifier the store has already handed out: its
  \<open>_id\<close> is below the next identifier. The store keeps this property at every insert.
\<close>

definition oid_below :: "nat \<Rightarrow> doc \<Rightarrow> bool" where
  "oid_below n p = (case map_of p ''_id'' of Some (BObjectId k) \<Rightarrow> k < n | _ \<Rightarrow> False)"

definition oids_below :: "database \<Rightarrow> bool" where
  "oids_below d = list_all (\<lambda>(c, ds). list_all (oid_below (next_oid d)) ds) (colls d)"

text \<open>
  The tag list of a stored record, and whether it contains a tag as a member. A record
  holds its tags as a list when the field is absent or a list.
\<close>

definition tag_list :: "doc \<Rightarrow> bson list" where
  "tag_list p = (case map_of p ''tags'' of Some (BArr ts) \<Rightarrow> ts | _ \<Rightarrow> [])"

definition has_tag :: "string \<Rightarrow> doc \<Rightarrow> bool" where
  "has_tag x p = (BStr x \<in> set (tag_list p))"

definition tags_is_list :: "doc \<Rightarrow> bool" where
  "tags_is_list p = (case map_of p ''tags'' of None \<Rightarrow> True | Some (BArr ts) \<Rightarrow> True | _ \<Rightarrow> False)"

text \<open>A store whose records lack the optional fields.\<close>

definition sparse_doc :: doc where
  "sparse_doc = [(''_id'', BObjectId 0), (''title'', BStr ''Untitled''), (''slug'', BStr ''untitled''),
                 (''description'', BStr ''No details yet'')]"

definition sparse_db :: database where
  "sparse_db = \<lparr>name_attr = Attribute ''portfolio'', fault = None,
                colls = [(''project'', [sparse_doc]), (''post'', [[(''_id'', BObjectId 1)]])],
                next_oid = 2\<rparr>"

definition sparse_state :: app_state where
  "sparse_state = \<lparr>db = Some sparse_db, calls = []\<rparr>"


section \<open>Facts about the data access layer on a reachable store\<close>

lemma collection_insert_one:
  "collection (insert_one c x d) c' =
     (if c' = c then collection d c @ [(''_id'', BObjectId (next_oid d)) # x] else collection d c')"
  by (simp add: insert_one_def collection_def update_conv')

lemma insert_one_fields [simp]:
  "fault (insert_one c x d) = fault d"
  "next_oid (insert_one c x d) = Suc (next_oid d)"
  "name_attr (insert_one c x d) = name_attr d"
  by (simp_all add: insert_one_def)

lemma insert_each_fields [simp]:
  "fault (insert_each c xs d) = fault d"
  "next_oid (insert_each c xs d) = next_oid d + length xs"
  "name_attr (insert_each c xs d) = name_attr d"
  by (induction xs arbitrary: d) simp_all

lemma collection_insert_each:
  "collection (insert_each c xs d) c' =
     (if c' = c then collection d c @ with_ids (next_oid d) xs else collection d c')"
  by (induction xs arbitrary: d) (simp_all add: collection_insert_one)

lemma count_documents_ok:
  "db st = Some d \<Longrightarrow> fault d = None \<Longrightarrow>
   count_documents c st = (Inr (length (collection d c)), st\<lparr>calls := calls st @ [CountDocuments c]\<rparr>)"
  by (simp add: count_documents_def log_call_def)

lemma create_document_ok:
  "db st = Some d \<Longrightarrow> fault d = None \<Longrightarrow>
   create_document c x st =
     (Inr (str_oid (next_oid d)),
      st\<lparr>db := Some (insert_one c x d), calls := calls st @ [CreateDocument c x]\<rparr>)"
  by (simp add: create_document_def log_call_def)

lemma get_documents_ok:
  "db st = Some d \<Longrightarrow> fault d = None \<Longrightarrow>
   get_documents c filt limit st =
     (Inr (cap limit (filter (matches filt) (collection d c))),
      st\<lparr>calls := calls st @ [GetDocuments c filt limit]\<rparr>)"
  by (simp add: get_documents_def log_call_def)

lemma create_each_ok:
  "db st = Some d \<Longrightarrow> fault d = None \<Longrightarrow>
   create_each c xs st =
     (Inr (), st\<lparr>db := Some (insert_each c xs d), calls := calls st @ map (CreateDocument c) xs\<rparr>)"
proof (induction xs arbitrary: st d)
  case Nil
  then show ?case by simp
next
  case (Cons x xs)
  let ?st1 = "st\<lparr>db := Some (insert_one c x d), calls := calls st @ [CreateDocument c x]\<rparr>"
  have "create_each c xs ?st1 =
     (Inr (), ?st1\<lparr>db := Some (insert_each c xs (insert_one c x d)),
                    calls := calls ?st1 @ map (CreateDocument c) xs\<rparr>)"
    by (rule Cons.IH) (simp_all add: Cons.prems)
  then show ?case
    by (simp add: create_document_ok [OF Cons.prems])
qed

lemma ensure_seed_data_ok:
  assumes "db st = Some d" "fault d = None"
  shows "ensure_seed_data now st =
     (Inr (), st\<lparr>db := Some (seeded now d), calls := calls st @ seed_calls now d\<rparr>)"
  using assms
  by (simp add: ensure_seed_data_def and_then_def returns_def count_documents_ok
        create_each_ok seeded_def seed_calls_def collection_insert_each Let_def)


lemma project_seeded:
  "collection (seeded now d) ''project'' =
     (if collection d ''project'' = []
      then with_ids (next_oid d) (map Project_dict project_examples)
      else collection d ''project'')"
  by (simp add: seeded_def collection_insert_each Let_def)

lemma post_seeded:
  "collection (seeded now d) ''post'' =
     (if collection d ''post'' = []
      then with_ids (next_oid d + (if collection d ''project'' = [] then length project_examples else 0))
             (map Post_dict (post_examples now))
      else collection d ''post'')"
  by (simp add: seeded_def collection_insert_each Let_def)

lemma fault_seeded [simp]: "fault (seeded now d) = fault d"
  by (simp add: seeded_def Let_def)

lemma with_ids_Nil_iff [simp]: "with_ids n xs = [] \<longleftrightarrow> xs = []"
  by (cases xs) simp_all

lemma examples_nonempty [simp]:
  "project_examples \<noteq> []" "post_examples now \<noteq> []"
  by (simp_all add: project_examples_def post_examples_def)

lemma seeded_nonempty:
  "collection (seeded now d) ''project'' \<noteq> []" "collection (seeded now d) ''post'' \<noteq> []"
  by (simp_all add: project_seeded post_seeded)

lemma seeded_again: "seeded now' (seeded now d) = seeded now d"
  using seeded_nonempty [of now d]
  by (simp add: seeded_def [of now' "seeded now d"] Let_def)

lemma seed_calls_again:
  "seed_calls now' (seeded now d) = [CountDocuments ''project'', CountDocuments ''post'']"
  using seeded_nonempty [of now d]
  by (simp add: seed_calls_def)


section \<open>Facts about the handlers on a reachable store\<close>

lemma matches_empty [simp]: "matches [] p"
  by (simp add: matches_def)

lemma list_projects_ok:
  assumes "db st = Some d" "fault d = None"
  shows "list_projects tag now st =
     (collect ProjectResponse_of
        (filter (matches (case tag of None \<Rightarrow> [] | Some t \<Rightarrow> if t \<noteq> [] then [(''tags'', BStr t)] else []))
           (collection (seeded now d) ''project'')),
      st\<lparr>db := Some (seeded now d),
         calls := calls st @ seed_calls now d @
           [GetDocuments ''project''
              (case tag of None \<Rightarrow> [] | Some t \<Rightarrow> if t \<noteq> [] then [(''tags'', BStr t)] else []) None]\<rparr>)"
  by (simp add: list_projects_def and_then_def ensure_seed_data_ok [OF assms] Let_def
        get_documents_ok [where d = "seeded now d"] assms(2) lift_def cap_def)

lemma list_posts_ok:
  assumes "db st = Some d" "fault d = None"
  shows "list_posts tag now st =
     (collect PostResponse_of
        (filter (matches (case tag of None \<Rightarrow> [] | Some t \<Rightarrow> if t \<noteq> [] then [(''tags'', BStr t)] else []))
           (collection (seeded now d) ''post'')),
      st\<lparr>db := Some (seeded now d),
         calls := calls st @ seed_calls now d @
           [GetDocuments ''post''
              (case tag of None \<Rightarrow> [] | Some t \<Rightarrow> if t \<noteq> [] then [(''tags'', BStr t)] else []) None]\<rparr>)"
  by (simp add: list_posts_def and_then_def ensure_seed_data_ok [OF assms] Let_def
        get_documents_ok [where d = "seeded now d"] assms(2) lift_def cap_def)

lemma get_project_ok:
  assumes "db st = Some d" "fault d = None"
  shows "get_project s now st =
     ((case filter (matches [(''slug'', BStr s)]) (collection (seeded now d) ''project'') of
         [] \<Rightarrow> Inl (HTTPException 404 ''Project not found'')
       | p # rest \<Rightarrow> ProjectResponse_of p),
      st\<lparr>db := Some (seeded now d),
         calls := calls st @ seed_calls now d @
           [GetDocuments ''project'' [(''slug'', BStr s)] (Some 1)]\<rparr>)"
  by (cases "filter (matches [(''slug'', BStr s)]) (collection (seeded now d) ''project'')")
     (simp_all add: get_project_def and_then_def ensure_seed_data_ok [OF assms]
        get_documents_ok [where d = "seeded now d"] assms(2) lift_def cap_def raises_def)

lemma get_post_ok:
  assumes "db st = Some d" "fault d = None"
  shows "get_post s now st =
     ((case filter (matches [(''slug'', BStr s)]) (collection (seeded now d) ''post'') of
         [] \<Rightarrow> Inl (HTTPException 404 ''Post not found'')
       | p # rest \<Rightarrow> PostResponse_of p),
      st\<lparr>db := Some (seeded now d),
         calls := calls st @ seed_calls now d @
           [GetDocuments ''post'' [(''slug'', BStr s)] (Some 1)]\<rparr>)"
  by (cases "filter (matches [(''slug'', BStr s)]) (collection (seeded now d) ''post'')")
     (simp_all add: get_post_def and_then_def ensure_seed_data_ok [OF assms]
        get_documents_ok [where d = "seeded now d"] assms(2) lift_def cap_def raises_def)


section \<open>Facts about the contact endpoint\<close>

lemma parse_ok:
  assumes "str_field body ''name'' = Some n" "str_field body ''email'' = Some e"
    "str_field body ''message'' = Some m" "valid_email e"
  shows "ContactRequest_parse valid_email body =
     Inr \<lparr>ContactRequest.name = n, email = e, message = m\<rparr>"
  using assms by (simp add: ContactRequest_parse_def offending_fields_def)

lemma parse_Inr_iff:
  "ContactRequest_parse valid_email body = Inr payload \<longleftrightarrow>
     str_field body ''name'' = Some (ContactRequest.name payload) \<and>
     str_field body ''email'' = Some (ContactRequest.email payload) \<and>
     str_field body ''message'' = Some (ContactRequest.message payload) \<and>
     valid_email (ContactRequest.email payload)"
  by (cases payload)
     (auto simp add: ContactRequest_parse_def offending_fields_def split: option.splits if_splits)

lemma parse_bad:
  assumes "str_field body ''name'' = None \<or> str_field body ''message'' = None \<or>
     (case str_field body ''email'' of None \<Rightarrow> True | Some e \<Rightarrow> \<not> valid_email e)"
  shows "ContactRequest_parse valid_email body =
     Inl (RequestValidationError (offending_fields valid_email body)) \<and>
     offending_fields valid_email body \<noteq> []"
  using assms
  by (auto simp add: ContactRequest_parse_def offending_fields_def split: option.splits)

lemma submit_contact_valid:
  assumes "valid_email (ContactRequest.email payload)"
  shows "submit_contact valid_email payload st =
     (case create_document ''contactmessage'' (ContactRequest_dict payload) st of
        (Inl e, st') \<Rightarrow> (Inl e, st')
      | (Inr msg_id, st') \<Rightarrow> (Inr [(''status'', ''ok''), (''id'', msg_id)], st'))"
proof -
  have m: "ContactMessage_of valid_email (ContactRequest_dict payload) =
     Inr \<lparr>ContactMessage.name = ContactRequest.name payload,
          email = ContactRequest.email payload,
          message = ContactRequest.message payload\<rparr>"
    using assms by (simp add: ContactMessage_of_def ContactRequest_dict_def str_field_def)
  have d: "ContactMessage_dict \<lparr>ContactMessage.name = ContactRequest.name payload,
          email = ContactRequest.email payload,
          message = ContactRequest.message payload\<rparr> = ContactRequest_dict payload"
    by (simp add: ContactMessage_dict_def ContactRequest_dict_def)
  show ?thesis
    by (simp add: submit_contact_def m d and_then_def returns_def split: prod.splits sum.splits)
qed

lemma length_hex_digits [simp]: "length (hex_digits k n) = k"
  by (induction k arbitrary: n) simp_all

lemma str_oid_nonempty: "str_oid n \<noteq> []"
proof -
  have "length (str_oid n) = 24" by (simp add: str_oid_def)
  then show ?thesis by auto
qed


section \<open>Identifiers of stored documents\<close>

lemma oid_below_mono: "oid_below n p \<Longrightarrow> n \<le> n' \<Longrightarrow> oid_below n' p"
  by (auto simp add: oid_below_def split: option.splits bson.splits)

lemma oids_below_collection:
  assumes "oids_below d" "p \<in> set (collection d c)"
  shows "oid_below (next_oid d) p"
proof -
  from assms(2) obtain ds where m: "map_of (colls d) c = Some ds" and p: "p \<in> set ds"
    by (cases "map_of (colls d) c") (simp_all add: collection_def)
  from m have "(c, ds) \<in> set (colls d)" by (rule map_of_SomeD)
  with assms(1) p show ?thesis
    by (auto simp add: oids_below_def list_all_iff)
qed

lemma oids_below_iff:
  "oids_below d \<longleftrightarrow> (\<forall>(c, ds) \<in> set (colls d). \<forall>p \<in> set ds. oid_below (next_oid d) p)"
  by (auto simp add: oids_below_def list_all_iff)

lemma set_alist_update: "set (AList.update k v al) \<subseteq> insert (k, v) (set al)"
  by (induction al) auto

lemma oids_below_insert_one:
  assumes "oids_below d"
  shows "oids_below (insert_one c x d)"
proof -
  let ?new = "(''_id'', BObjectId (next_oid d)) # x"
  have new: "oid_below (Suc (next_oid d)) ?new"
    by (simp add: oid_below_def)
  have old: "oid_below (Suc (next_oid d)) p" if "p \<in> set (collection d c')" for p c'
    using oids_below_collection [OF assms that] by (rule oid_below_mono) simp
  have old': "oid_below (Suc (next_oid d)) p" if "(c', ds) \<in> set (colls d)" "p \<in> set ds" for p c' ds
  proof -
    from assms that have "oid_below (next_oid d) p"
      by (fastforce simp add: oids_below_iff)
    then show ?thesis by (rule oid_below_mono) simp
  qed
  have "oid_below (Suc (next_oid d)) p"
    if "(c', ds) \<in> set (AList.update c (collection d c @ [?new]) (colls d))" "p \<in> set ds" for c' ds p
  proof -
    from that(1) have "(c', ds) = (c, collection d c @ [?new]) \<or> (c', ds) \<in> set (colls d)"
      using set_alist_update [of c "collection d c @ [?new]" "colls d"] by auto
    then show ?thesis
    proof
      assume "(c', ds) = (c, collection d c @ [?new])"
      with that(2) have "p \<in> set (collection d c) \<or> p = ?new" by auto
      then show ?thesis using new old by blast
    next
      assume "(c', ds) \<in> set (colls d)"
      then show ?thesis using that(2) by (rule old')
    qed
  qed
  then show ?thesis
    by (auto simp add: oids_below_iff insert_one_def)
qed

lemma fresh_oid:
  assumes "oids_below d" "p \<in> set (collection d c)"
  shows "\<not> matches [(''_id'', BObjectId (next_oid d))] p"
  using oids_below_collection [OF assms]
  by (auto simp add: oid_below_def matches_def split: option.splits bson.splits)

lemma create_document_frame:
  assumes "create_document c x st = (r, st')"
  shows "calls st' = calls st @ [CreateDocument c x]"
    and "db st = None \<Longrightarrow> db st' = None"
    and "db st = Some d \<Longrightarrow>
         \<exists>d'. db st' = Some d' \<and> (\<forall>c'. c' \<noteq> c \<longrightarrow> collection d' c' = collection d c')"
  using assms
  by (auto simp add: create_document_def log_call_def Let_def collection_insert_one
        split: option.splits)

lemma post_contact_cases:
  "post_contact valid_email body st =
     (case ContactRequest_parse valid_email body of
        Inl e \<Rightarrow> (Inl e, st)
      | Inr payload \<Rightarrow>
          (case create_document ''contactmessage'' (ContactRequest_dict payload) st of
             (Inl e, st') \<Rightarrow> (Inl e, st')
           | (Inr msg_id, st') \<Rightarrow> (Inr [(''status'', ''ok''), (''id'', msg_id)], st')))"
proof (cases "ContactRequest_parse valid_email body")
  case (Inl e)
  then show ?thesis by (simp add: post_contact_def raises_def)
next
  case (Inr payload)
  then have "valid_email (ContactRequest.email payload)"
    by (simp add: parse_Inr_iff)
  then show ?thesis
    using Inr by (simp add: post_contact_def submit_contact_valid [of valid_email payload])
qed


section \<open>Facts about response shaping and filters\<close>

lemma val_str_error: "val_str v = Inl e \<Longrightarrow> e = ValidationError"
  by (cases v) simp_all

lemma val_opt_str_error: "val_opt_str v = Inl e \<Longrightarrow> e = ValidationError"
  by (cases v) simp_all

lemma val_bool_error: "val_bool v = Inl e \<Longrightarrow> e = ValidationError"
  by (cases v) simp_all

lemma val_opt_datetime_error: "val_opt_datetime v = Inl e \<Longrightarrow> e = ValidationError"
  by (cases v) simp_all

lemma collect_val_str_error: "collect val_str xs = Inl e \<Longrightarrow> e = ValidationError"
  by (induction xs) (auto split: sum.splits dest: val_str_error)

lemma val_str_list_error: "val_str_list v = Inl e \<Longrightarrow> e = ValidationError"
  by (cases v) (simp_all add: collect_val_str_error)

lemma sbind_Inl:
  "sbind m f = Inl e \<Longrightarrow> m = Inl e \<or> (\<exists>x. m = Inr x \<and> f x = Inl e)"
  by (cases m) (simp_all add: sbind_def)

lemma ProjectResponse_of_error: "ProjectResponse_of p = Inl e \<Longrightarrow> e = ValidationError"
  unfolding ProjectResponse_of_def
  by (auto dest!: sbind_Inl
        dest: val_str_error val_opt_str_error val_bool_error val_str_list_error)

lemma PostResponse_of_error: "PostResponse_of p = Inl e \<Longrightarrow> e = ValidationError"
  unfolding PostResponse_of_def
  by (auto dest!: sbind_Inl
        dest: val_str_error val_opt_str_error val_opt_datetime_error val_str_list_error)

lemma matches_tag:
  "tags_is_list p \<Longrightarrow> matches [(''tags'', BStr x)] p = has_tag x p"
  by (auto simp add: matches_def has_tag_def tag_list_def tags_is_list_def
        split: option.splits bson.splits)

lemma filter_matches_tag:
  "\<forall>p \<in> set ps. tags_is_list p \<Longrightarrow>
   filter (matches [(''tags'', BStr x)]) ps = filter (has_tag x) ps"
  by (rule filter_cong) (simp_all add: matches_tag)

lemma seeded_examples:
  "collection (seeded now empty_db) ''project'' = with_ids 0 (map Project_dict project_examples)"
proof -
  have "collection empty_db ''project'' = []" "next_oid empty_db = 0"
    by (simp_all add: collection_def empty_db_def)
  then show ?thesis by (simp add: project_seeded)
qed

lemma example_tags:
  "filter (has_tag ''Infra'') (with_ids 0 (map Project_dict project_examples)) =
     [(''_id'', BObjectId 0) # Project_dict (project_examples ! 0),
      (''_id'', BObjectId 2) # Project_dict (project_examples ! 2)]"
  "filter (has_tag []) (with_ids 0 (map Project_dict project_examples)) = []"
  "\<forall>p \<in> set (with_ids 0 (map Project_dict project_examples)). tags_is_list p"
  by (simp_all add: project_examples_def Project_dict_def has_tag_def tag_list_def tags_is_list_def)

lemma collect_val_str_map: "collect val_str (map BStr xs) = Inr xs"
  by (induction xs) simp_all

lemma val_opt_str_opt_str: "val_opt_str (opt_str s) = Inr s"
  by (cases s) (simp_all add: opt_str_def)

lemma ProjectResponse_of_Project_dict:
  "ProjectResponse_of ((''_id'', i) # Project_dict P) =
     Inr \<lparr>ProjectResponse.title = Project.title P,
          slug = Project.slug P,
          description = Project.description P,
          tags = Project.tags P,
          stack = Project.stack P,
          impact = Project.impact P,
          cover_url = Project.cover_url P,
          github_url = Project.github_url P,
          demo_url = Project.demo_url P,
          featured = Project.featured P\<rparr>"
  by (simp add: ProjectResponse_of_def Project_dict_def get_def get_default_def sbind_def
        collect_val_str_map val_opt_str_opt_str)

lemma collect_Cons_nonempty: "collect f (x # xs) \<noteq> Inr []"
  by (simp split: sum.splits)

lemma collect_examples_nonempty:
  "collect ProjectResponse_of (with_ids 0 (map Project_dict project_examples)) \<noteq> Inr []"
  by (simp add: project_examples_def collect_Cons_nonempty del: collect.simps)

lemma get_append_other: "k' \<noteq> k \<Longrightarrow> get (p @ [(k, v)]) k' = get p k'"
  by (simp add: get_def map_add_def split: option.splits)

lemma get_default_append_other:
  "k' \<noteq> k \<Longrightarrow> get_default (p @ [(k, v)]) k' dflt = get_default p k' dflt"
  by (simp add: get_default_def map_add_def split: option.splits)

lemma get_default_append_same:
  "map_of p k = None \<Longrightarrow> get_default (p @ [(k, v)]) k dflt = v"
  by (simp add: get_default_def map_add_def)

lemma get_default_missing: "map_of p k = None \<Longrightarrow> get_default p k dflt = dflt"
  by (simp add: get_default_def)

lemma get_missing: "map_of p k = None \<Longrightarrow> get p k = BNull"
  by (simp add: get_def)

lemma get_present: "map_of p k = Some v \<Longrightarrow> get p k = v"
  by (simp add: get_def)

lemma sbind_Inr:
  "sbind m f = Inr r \<Longrightarrow> \<exists>x. m = Inr x \<and> f x = Inr r"
  by (cases m) (simp_all add: sbind_def)

section \<open>Claims\<close>

text \<open>
  C1. On a reachable store the seed routine counts each of the two content collections
  and, for a collection whose count is zero, inserts exactly the fixed examples (three
  projects, one post), in order; for a collection whose count is not zero it makes no
  insert and leaves the collection as it is. A second invocation afterwards only makes
  the two count queries and writes nothing.
\<close>

theorem ensure_seed_data_seeds_once:
  assumes "db st = Some d" and "fault d = None"
  shows "\<exists>d' st'.
     ensure_seed_data now st = (Inr (), st') \<and> db st' = Some d' \<and>
     calls st' = calls st
        @ [CountDocuments ''project'']
        @ (if collection d ''project'' = []
           then map (\<lambda>p. CreateDocument ''project'' (Project_dict p)) project_examples else [])
        @ [CountDocuments ''post'']
        @ (if collection d ''post'' = []
           then map (\<lambda>p. CreateDocument ''post'' (Post_dict p)) (post_examples now) else []) \<and>
     collection d' ''project'' =
        (if collection d ''project'' = []
         then with_ids (next_oid d) (map Project_dict project_examples)
         else collection d ''project'') \<and>
     collection d' ''post'' =
        (if collection d ''post'' = []
         then with_ids (next_oid d + (if collection d ''project'' = [] then 3 else 0))
                (map Post_dict (post_examples now))
         else collection d ''post'') \<and>
     length project_examples = 3 \<and> length (post_examples now) = 1 \<and>
     ensure_seed_data now' st' =
        (Inr (), st'\<lparr>calls := calls st' @ [CountDocuments ''project'', CountDocuments ''post'']\<rparr>)"
proof -
  let ?d' = "seeded now d"
  let ?st' = "st\<lparr>db := Some ?d', calls := calls st @ seed_calls now d\<rparr>"
  have first: "ensure_seed_data now st = (Inr (), ?st')"
    by (rule ensure_seed_data_ok [OF assms])
  have len: "length project_examples = 3" "length (post_examples now) = 1"
    by (simp_all add: project_examples_def post_examples_def)
  have again: "ensure_seed_data now' ?st' =
      (Inr (), ?st'\<lparr>calls := calls ?st' @ [CountDocuments ''project'', CountDocuments ''post'']\<rparr>)"
    using ensure_seed_data_ok [of ?st' ?d' now'] assms(2)
    by (simp add: seeded_again seed_calls_again)
  have cs: "calls ?st' = calls st
        @ [CountDocuments ''project'']
        @ (if collection d ''project'' = []
           then map (\<lambda>p. CreateDocument ''project'' (Project_dict p)) project_examples else [])
        @ [CountDocuments ''post'']
        @ (if collection d ''post'' = []
           then map (\<lambda>p. CreateDocument ''post'' (Post_dict p)) (post_examples now) else [])"
    by (simp add: seed_calls_def comp_def)
  have pj: "collection ?d' ''project'' =
        (if collection d ''project'' = []
         then with_ids (next_oid d) (map Project_dict project_examples)
         else collection d ''project'')"
    by (rule project_seeded)
  have po: "collection ?d' ''post'' =
        (if collection d ''post'' = []
         then with_ids (next_oid d + (if collection d ''project'' = [] then 3 else 0))
                (map Post_dict (post_examples now))
         else collection d ''post'')"
    by (simp add: post_seeded len)
  have dbs: "db ?st' = Some ?d'" by simp
  show ?thesis
    using first dbs cs pj po len again by blast
qed

text \<open>The routine run on an empty reachable store, and run again.\<close>

theorem ensure_seed_data_seeds_once_witness:
  "db empty_state = Some empty_db \<and> fault empty_db = None \<and>
   (\<exists>d' st'.
      ensure_seed_data 7 empty_state = (Inr (), st') \<and> db st' = Some d' \<and>
      calls st' =
        CountDocuments ''project''
        # map (\<lambda>p. CreateDocument ''project'' (Project_dict p)) project_examples
        @ CountDocuments ''post''
        # map (\<lambda>p. CreateDocument ''post'' (Post_dict p)) (post_examples 7) \<and>
      collection d' ''project'' = with_ids 0 (map Project_dict project_examples) \<and>
      collection d' ''post'' = with_ids 3 (map Post_dict (post_examples 7)) \<and>
      ensure_seed_data 8 st' =
        (Inr (), st'\<lparr>calls := calls st' @ [CountDocuments ''project'', CountDocuments ''post'']\<rparr>))"
proof -
  have h1: "db empty_state = Some empty_db"
    by (simp add: empty_state_def)
  have h2: "fault empty_db = None"
    by (simp add: empty_db_def)
  have e: "collection empty_db ''project'' = []" "collection empty_db ''post'' = []"
      "next_oid empty_db = 0" "calls empty_state = []"
    by (simp_all add: collection_def empty_db_def empty_state_def)
  show ?thesis
    using ensure_seed_data_seeds_once [OF h1 h2, of 7 8] h1 h2
    by (simp add: e) blast
qed

text \<open>
  C2 (amended). On a reachable store whose project records hold their tags as a list:
  for every non-empty string \<open>x\<close>, \<open>GET /api/projects?tag=x\<close> builds its answer from
  exactly the stored project records whose tag list has \<open>x\<close> as a member (equality of
  whole strings, so case-sensitive and never a partial match), in stored order. Without
  \<open>tag\<close>, and with the empty string as \<open>tag\<close>, it builds the answer from all project
  records.
\<close>

theorem list_projects_by_tag:
  assumes "db st = Some d" and "fault d = None"
  shows
   "(x \<noteq> [] \<and> (\<forall>p \<in> set (collection (seeded now d) ''project''). tags_is_list p) \<longrightarrow>
       fst (list_projects (Some x) now st) =
         collect ProjectResponse_of (filter (has_tag x) (collection (seeded now d) ''project''))) \<and>
    fst (list_projects None now st) =
       collect ProjectResponse_of (collection (seeded now d) ''project'') \<and>
    fst (list_projects (Some []) now st) =
       collect ProjectResponse_of (collection (seeded now d) ''project'') \<and>
    db (snd (list_projects (Some x) now st)) = Some (seeded now d) \<and>
    db (snd (list_projects None now st)) = Some (seeded now d) \<and>
    (collection d ''project'' \<noteq> [] \<longrightarrow>
       collection (seeded now d) ''project'' = collection d ''project'')"
proof -
  have a: "fst (list_projects (Some x) now st) =
         collect ProjectResponse_of (filter (has_tag x) (collection (seeded now d) ''project''))"
    if "x \<noteq> []" "\<forall>p \<in> set (collection (seeded now d) ''project''). tags_is_list p"
    using that by (simp add: list_projects_ok [OF assms] filter_matches_tag)
  have b: "fst (list_projects None now st) =
       collect ProjectResponse_of (collection (seeded now d) ''project'')"
    by (simp add: list_projects_ok [OF assms])
  have c: "fst (list_projects (Some []) now st) =
       collect ProjectResponse_of (collection (seeded now d) ''project'')"
    by (simp add: list_projects_ok [OF assms])
  have e: "db (snd (list_projects (Some x) now st)) = Some (seeded now d)"
      "db (snd (list_projects None now st)) = Some (seeded now d)"
    by (simp_all add: list_projects_ok [OF assms])
  have f: "collection d ''project'' \<noteq> [] \<longrightarrow>
       collection (seeded now d) ''project'' = collection d ''project''"
    by (simp add: project_seeded)
  from a b c e f show ?thesis by blast
qed

text \<open>
  With the tag \<open>Infra\<close> on a freshly seeded store the answer is built from the first
  and the third example.
\<close>

theorem list_projects_by_tag_witness:
  "db empty_state = Some empty_db \<and> fault empty_db = None \<and> ''Infra'' \<noteq> [] \<and>
   list_all tags_is_list (collection (seeded 7 empty_db) ''project'') \<and>
   fst (list_projects (Some ''Infra'') 7 empty_state) =
     collect ProjectResponse_of
       [(''_id'', BObjectId 0) # Project_dict (project_examples ! 0),
        (''_id'', BObjectId 2) # Project_dict (project_examples ! 2)]"
proof -
  have h: "db empty_state = Some empty_db" "fault empty_db = None"
    by (simp_all add: empty_state_def empty_db_def)
  have n: "''Infra'' \<noteq> []" by simp
  have l: "\<forall>p \<in> set (collection (seeded 7 empty_db) ''project''). tags_is_list p"
    by (simp add: seeded_examples example_tags(3))
  note t = list_projects_by_tag [OF h, of "''Infra''" 7]
  from t n l have "fst (list_projects (Some ''Infra'') 7 empty_state) =
      collect ProjectResponse_of (filter (has_tag ''Infra'') (collection (seeded 7 empty_db) ''project''))"
    by blast
  then have r: "fst (list_projects (Some ''Infra'') 7 empty_state) =
     collect ProjectResponse_of
       [(''_id'', BObjectId 0) # Project_dict (project_examples ! 0),
        (''_id'', BObjectId 2) # Project_dict (project_examples ! 2)]"
    by (simp only: seeded_examples example_tags)
  from l have l': "list_all tags_is_list (collection (seeded 7 empty_db) ''project'')"
    by (simp add: list_all_iff)
  from h n l' r show ?thesis by blast
qed

text \<open>
  The claim as first stated fails for the empty string: on a freshly seeded store no
  record has the empty string in its tag list, so the answer would be the empty list,
  and the handler answers with all three examples.
\<close>

theorem list_projects_empty_tag_counterexample:
  "fst (list_projects (Some []) 7 empty_state) =
     collect ProjectResponse_of (with_ids 0 (map Project_dict project_examples)) \<and>
   collect ProjectResponse_of
     (filter (has_tag []) (collection (seeded 7 empty_db) ''project'')) = Inr [] \<and>
   fst (list_projects (Some []) 7 empty_state) \<noteq>
     collect ProjectResponse_of
       (filter (has_tag []) (collection (seeded 7 empty_db) ''project''))"
proof -
  have h: "db empty_state = Some empty_db" "fault empty_db = None"
    by (simp_all add: empty_state_def empty_db_def)
  have a: "fst (list_projects (Some []) 7 empty_state) =
     collect ProjectResponse_of (with_ids 0 (map Project_dict project_examples))"
    by (simp add: list_projects_ok [OF h] seeded_examples)
  have b: "collect ProjectResponse_of
     (filter (has_tag []) (collection (seeded 7 empty_db) ''project'')) = Inr []"
    by (simp add: seeded_examples example_tags)
  from a b collect_examples_nonempty show ?thesis by simp
qed

text \<open>
  C3. On a reachable store, \<open>GET /api/projects/{slug}\<close> and \<open>GET /api/posts/{slug}\<close>
  run the seed check and then query their collection by the slug with limit 1. If no
  record of the collection matches the slug, the answer is the 404 with the detail
  \<open>Project not found\<close> (\<open>Post not found\<close>); and an error with status 404 is the answer
  exactly when the lookup finds no record. The collection queried is the one the seed
  check leaves, which is the stored one unless that was empty.
\<close>

theorem slug_not_found:
  assumes "db st = Some d" and "fault d = None"
  shows
   "(filter (matches [(''slug'', BStr s)]) (collection (seeded now d) ''project'') = []
       \<longrightarrow> fst (get_project s now st) = Inl (HTTPException 404 ''Project not found'')) \<and>
    (filter (matches [(''slug'', BStr s)]) (collection (seeded now d) ''post'') = []
       \<longrightarrow> fst (get_post s now st) = Inl (HTTPException 404 ''Post not found'')) \<and>
    ((\<exists>e. fst (get_project s now st) = Inl e \<and> status_code e = 404) \<longleftrightarrow>
       filter (matches [(''slug'', BStr s)]) (collection (seeded now d) ''project'') = []) \<and>
    ((\<exists>e. fst (get_post s now st) = Inl e \<and> status_code e = 404) \<longleftrightarrow>
       filter (matches [(''slug'', BStr s)]) (collection (seeded now d) ''post'') = []) \<and>
    calls (snd (get_project s now st)) =
       calls st @ seed_calls now d @ [GetDocuments ''project'' [(''slug'', BStr s)] (Some 1)] \<and>
    calls (snd (get_post s now st)) =
       calls st @ seed_calls now d @ [GetDocuments ''post'' [(''slug'', BStr s)] (Some 1)] \<and>
    db (snd (get_project s now st)) = Some (seeded now d) \<and>
    db (snd (get_post s now st)) = Some (seeded now d) \<and>
    (collection d ''project'' \<noteq> [] \<longrightarrow>
       collection (seeded now d) ''project'' = collection d ''project'') \<and>
    (collection d ''post'' \<noteq> [] \<longrightarrow>
       collection (seeded now d) ''post'' = collection d ''post'')"
proof -
  let ?pj = "filter (matches [(''slug'', BStr s)]) (collection (seeded now d) ''project'')"
  let ?po = "filter (matches [(''slug'', BStr s)]) (collection (seeded now d) ''post'')"
  note gp = get_project_ok [OF assms, of s now]
  note go = get_post_ok [OF assms, of s now]
  have a1: "?pj = [] \<longrightarrow> fst (get_project s now st) = Inl (HTTPException 404 ''Project not found'')"
    by (simp add: gp)
  have a2: "?po = [] \<longrightarrow> fst (get_post s now st) = Inl (HTTPException 404 ''Post not found'')"
    by (simp add: go)
  have b1: "(\<exists>e. fst (get_project s now st) = Inl e \<and> status_code e = 404) \<longleftrightarrow> ?pj = []"
  proof (cases ?pj)
    case Nil
    then show ?thesis by (simp add: gp)
  next
    case (Cons p rest)
    have "status_code e \<noteq> 404" if "ProjectResponse_of p = Inl e" for e
      using ProjectResponse_of_error [OF that] by simp
    then show ?thesis using Cons by (auto simp add: gp)
  qed
  have b2: "(\<exists>e. fst (get_post s now st) = Inl e \<and> status_code e = 404) \<longleftrightarrow> ?po = []"
  proof (cases ?po)
    case Nil
    then show ?thesis by (simp add: go)
  next
    case (Cons p rest)
    have "status_code e \<noteq> 404" if "PostResponse_of p = Inl e" for e
      using PostResponse_of_error [OF that] by simp
    then show ?thesis using Cons by (auto simp add: go)
  qed
  have c1: "calls (snd (get_project s now st)) =
       calls st @ seed_calls now d @ [GetDocuments ''project'' [(''slug'', BStr s)] (Some 1)]"
    by (simp add: gp)
  have c2: "calls (snd (get_post s now st)) =
       calls st @ seed_calls now d @ [GetDocuments ''post'' [(''slug'', BStr s)] (Some 1)]"
    by (simp add: go)
  have d1: "db (snd (get_project s now st)) = Some (seeded now d)"
    by (simp add: gp)
  have d2: "db (snd (get_post s now st)) = Some (seeded now d)"
    by (simp add: go)
  have e1: "collection d ''project'' \<noteq> [] \<longrightarrow>
       collection (seeded now d) ''project'' = collection d ''project''"
    by (simp add: project_seeded)
  have e2: "collection d ''post'' \<noteq> [] \<longrightarrow>
       collection (seeded now d) ''post'' = collection d ''post''"
    by (simp add: post_seeded)
  from a1 a2 b1 b2 c1 c2 d1 d2 e1 e2 show ?thesis by blast
qed

text \<open>A slug that no seeded record has.\<close>

theorem slug_not_found_witness:
  "db empty_state = Some empty_db \<and> fault empty_db = None \<and>
   filter (matches [(''slug'', BStr ''nope'')]) (collection (seeded 7 empty_db) ''project'') = [] \<and>
   filter (matches [(''slug'', BStr ''nope'')]) (collection (seeded 7 empty_db) ''post'') = [] \<and>
   fst (get_project ''nope'' 7 empty_state) = Inl (HTTPException 404 ''Project not found'') \<and>
   fst (get_post ''nope'' 7 empty_state) = Inl (HTTPException 404 ''Post not found'')"
proof -
  have h: "db empty_state = Some empty_db" "fault empty_db = None"
    by (simp_all add: empty_state_def empty_db_def)
  have e: "collection empty_db ''project'' = []" "collection empty_db ''post'' = []"
    by (simp_all add: collection_def empty_db_def)
  have pj: "filter (matches [(''slug'', BStr ''nope'')]) (collection (seeded 7 empty_db) ''project'') = []"
    by (simp add: seeded_examples project_examples_def Project_dict_def matches_def)
  have po: "filter (matches [(''slug'', BStr ''nope'')]) (collection (seeded 7 empty_db) ''post'') = []"
    by (simp add: post_seeded e post_examples_def Post_dict_def matches_def)
  note t = slug_not_found [OF h, of "''nope''" 7]
  from t pj have a: "fst (get_project ''nope'' 7 empty_state) = Inl (HTTPException 404 ''Project not found'')"
    by blast
  from t po have b: "fst (get_post ''nope'' 7 empty_state) = Inl (HTTPException 404 ''Post not found'')"
    by blast
  from h pj po a b show ?thesis by blast
qed

text \<open>
  C4. A \<open>POST /api/contact\<close> body in which \<open>name\<close>, \<open>email\<close> or \<open>message\<close> is
  missing, or whose \<open>email\<close> is a string that is not a syntactically valid address, is
  answered with a request validation error (status 422) that names the offending
  fields, at least one, and the state is left as it is: nothing is inserted and no call
  reaches the store.
\<close>

theorem post_contact_rejects_invalid:
  assumes "map_of body ''name'' = None \<or> map_of body ''email'' = None \<or>
     map_of body ''message'' = None \<or>
     (\<exists>e. map_of body ''email'' = Some (BStr e) \<and> \<not> valid_email e)"
  shows "post_contact valid_email body st =
       (Inl (RequestValidationError (offending_fields valid_email body)), st) \<and>
     offending_fields valid_email body \<noteq> [] \<and>
     status_code (RequestValidationError (offending_fields valid_email body)) = 422"
proof -
  from assms have "str_field body ''name'' = None \<or> str_field body ''message'' = None \<or>
     (case str_field body ''email'' of None \<Rightarrow> True | Some e \<Rightarrow> \<not> valid_email e)"
    by (auto simp add: str_field_def)
  from parse_bad [OF this] show ?thesis
    by (simp add: post_contact_def raises_def)
qed

text \<open>A body with the address \<open>not-an-email\<close>.\<close>

theorem post_contact_rejects_invalid_witness:
  "map_of bad_body ''email'' = Some (BStr ''not-an-email'') \<and>
   \<not> has_at_sign ''not-an-email'' \<and>
   post_contact has_at_sign bad_body empty_state =
     (Inl (RequestValidationError [''email'']), empty_state)"
proof -
  have m: "map_of bad_body ''email'' = Some (BStr ''not-an-email'')"
    by (simp add: bad_body_def)
  have v: "\<not> has_at_sign ''not-an-email''"
    by (simp add: has_at_sign_def)
  from m v have h: "map_of bad_body ''name'' = None \<or> map_of bad_body ''email'' = None \<or>
     map_of bad_body ''message'' = None \<or>
     (\<exists>e. map_of bad_body ''email'' = Some (BStr e) \<and> \<not> has_at_sign e)"
    by blast
  have o: "offending_fields has_at_sign bad_body = [''email'']"
    by (simp add: offending_fields_def str_field_def bad_body_def has_at_sign_def)
  note t = post_contact_rejects_invalid [where valid_email = has_at_sign, OF h, of empty_state]
  from t have "post_contact has_at_sign bad_body empty_state =
     (Inl (RequestValidationError [''email'']), empty_state)"
    unfolding o by blast
  with m v show ?thesis by blast
qed

text \<open>
  C5. A \<open>POST /api/contact\<close> body with the strings \<open>name\<close>, \<open>email\<close> and
  \<open>message\<close>, the address being valid, sent to a reachable store: the one call made is the
  insert of the contact message, the \<open>contactmessage\<close> collection gains exactly that
  record under a new identifier, and the answer is \<open>{"status": "ok", "id": s}\<close> where
  \<open>s\<close> is the non-empty text of that identifier. When every stored document carries an
  identifier the store has handed out, no document had this identifier before, and a
  query by it finds the new record and nothing else.
\<close>

theorem post_contact_stores_message:
  assumes "str_field body ''name'' = Some n" and "str_field body ''email'' = Some e"
    and "str_field body ''message'' = Some m" and "valid_email e"
    and "db st = Some d" and "fault d = None"
  shows "\<exists>d'.
     post_contact valid_email body st =
       (Inr [(''status'', ''ok''), (''id'', str_oid (next_oid d))],
        st\<lparr>db := Some d',
           calls := calls st @
             [CreateDocument ''contactmessage''
                [(''name'', BStr n), (''email'', BStr e), (''message'', BStr m)]]\<rparr>) \<and>
     collection d' ''contactmessage'' = collection d ''contactmessage'' @
       [[(''_id'', BObjectId (next_oid d)),
         (''name'', BStr n), (''email'', BStr e), (''message'', BStr m)]] \<and>
     str_oid (next_oid d) \<noteq> [] \<and>
     (oids_below d \<longrightarrow>
        oids_below d' \<and>
        (\<forall>c. \<forall>p \<in> set (collection d c). map_of p ''_id'' \<noteq> Some (BObjectId (next_oid d))) \<and>
        filter (matches [(''_id'', BObjectId (next_oid d))]) (collection d' ''contactmessage'') =
          [[(''_id'', BObjectId (next_oid d)),
            (''name'', BStr n), (''email'', BStr e), (''message'', BStr m)]])"
proof -
  let ?payload = "\<lparr>ContactRequest.name = n, email = e, message = m\<rparr>"
  let ?data = "[(''name'', BStr n), (''email'', BStr e), (''message'', BStr m)]"
  let ?d' = "insert_one ''contactmessage'' ?data d"
  have p: "ContactRequest_parse valid_email body = Inr ?payload"
    by (rule parse_ok) (rule assms)+
  have v: "valid_email (ContactRequest.email ?payload)"
    using assms(4) by simp
  have dd: "ContactRequest_dict ?payload = ?data"
    by (simp add: ContactRequest_dict_def)
  have r: "post_contact valid_email body st =
       (Inr [(''status'', ''ok''), (''id'', str_oid (next_oid d))],
        st\<lparr>db := Some ?d',
           calls := calls st @ [CreateDocument ''contactmessage'' ?data]\<rparr>)"
    using v
    by (simp add: post_contact_def p submit_contact_valid [of valid_email ?payload] dd
          create_document_ok [OF assms(5,6)])
  have c: "collection ?d' ''contactmessage'' =
      collection d ''contactmessage'' @ [(''_id'', BObjectId (next_oid d)) # ?data]"
    by (simp add: collection_insert_one)
  have inv: "oids_below ?d'" if "oids_below d"
    using that by (rule oids_below_insert_one)
  have fresh: "map_of p ''_id'' \<noteq> Some (BObjectId (next_oid d))"
    if "oids_below d" "p \<in> set (collection d c)" for p c
    using oids_below_collection [OF that] by (auto simp add: oid_below_def)
  have old: "filter (matches [(''_id'', BObjectId (next_oid d))]) (collection d ''contactmessage'') = []"
    if "oids_below d"
    using fresh_oid [OF that] by (simp add: filter_empty_conv)
  have new: "matches [(''_id'', BObjectId (next_oid d))] ((''_id'', BObjectId (next_oid d)) # ?data)"
    by (simp add: matches_def)
  have found: "filter (matches [(''_id'', BObjectId (next_oid d))]) (collection ?d' ''contactmessage'') =
      [(''_id'', BObjectId (next_oid d)) # ?data]" if "oids_below d"
    using old [OF that] new by (simp add: c)
  show ?thesis
    using r c str_oid_nonempty [of "next_oid d"] inv fresh found by blast
qed

text \<open>The request of the spec's example, on an empty reachable store.\<close>

theorem post_contact_stores_message_witness:
  "str_field jane_body ''name'' = Some ''Jane'' \<and>
   str_field jane_body ''email'' = Some ''jane@example.com'' \<and>
   str_field jane_body ''message'' = Some ''hi'' \<and>
   has_at_sign ''jane@example.com'' \<and>
   db empty_state = Some empty_db \<and> fault empty_db = None \<and> oids_below empty_db \<and>
   (\<exists>d'. post_contact has_at_sign jane_body empty_state =
       (Inr [(''status'', ''ok''), (''id'', ''000000000000000000000000'')],
        \<lparr>db = Some d',
         calls = [CreateDocument ''contactmessage''
                   [(''name'', BStr ''Jane''), (''email'', BStr ''jane@example.com''),
                    (''message'', BStr ''hi'')]]\<rparr>) \<and>
     collection d' ''contactmessage'' =
       [[(''_id'', BObjectId 0), (''name'', BStr ''Jane''),
         (''email'', BStr ''jane@example.com''), (''message'', BStr ''hi'')]] \<and>
     filter (matches [(''_id'', BObjectId 0)]) (collection d' ''contactmessage'') =
       [[(''_id'', BObjectId 0), (''name'', BStr ''Jane''),
         (''email'', BStr ''jane@example.com''), (''message'', BStr ''hi'')]])"
proof -
  have h1: "str_field jane_body ''name'' = Some ''Jane''"
    and h2: "str_field jane_body ''email'' = Some ''jane@example.com''"
    and h3: "str_field jane_body ''message'' = Some ''hi''"
    by (simp_all add: str_field_def jane_body_def)
  have h4: "has_at_sign ''jane@example.com''"
    by (simp add: has_at_sign_def)
  have h5: "db empty_state = Some empty_db"
    by (simp add: empty_state_def)
  have h6: "fault empty_db = None"
    by (simp add: empty_db_def)
  have h7: "oids_below empty_db"
    by (simp add: oids_below_def empty_db_def)
  have e: "next_oid empty_db = 0" "collection empty_db ''contactmessage'' = []"
    "calls empty_state = []"
    by (simp_all add: empty_db_def collection_def empty_state_def)
  have s: "str_oid 0 = ''000000000000000000000000''"
    by code_simp
  have u: "empty_state\<lparr>db := Some d', calls := cs\<rparr> = \<lparr>db = Some d', calls = cs\<rparr>" for d' cs
    by (simp add: empty_state_def)
  note t = post_contact_stores_message [where valid_email = has_at_sign, OF h1 h2 h3 h4 h5 h6]
  have "\<exists>d'. post_contact has_at_sign jane_body empty_state =
       (Inr [(''status'', ''ok''), (''id'', ''000000000000000000000000'')],
        \<lparr>db = Some d',
         calls = [CreateDocument ''contactmessage''
                   [(''name'', BStr ''Jane''), (''email'', BStr ''jane@example.com''),
                    (''message'', BStr ''hi'')]]\<rparr>) \<and>
     collection d' ''contactmessage'' =
       [[(''_id'', BObjectId 0), (''name'', BStr ''Jane''),
         (''email'', BStr ''jane@example.com''), (''message'', BStr ''hi'')]] \<and>
     filter (matches [(''_id'', BObjectId 0)]) (collection d' ''contactmessage'') =
       [[(''_id'', BObjectId 0), (''name'', BStr ''Jane''),
         (''email'', BStr ''jane@example.com''), (''message'', BStr ''hi'')]]"
    using t h7 unfolding e s u append_Nil by blast
  with h1 h2 h3 h4 h5 h6 h7 show ?thesis by blast
qed

text \<open>
  C6. Shaping a stored project record into a response fills in the defaults: a record
  without \<open>featured\<close> is shaped exactly as if it stored \<open>featured = False\<close>, and a
  response it yields has \<open>featured = False\<close>; the same holds for \<open>tags\<close> and \<open>stack\<close>
  with the empty list. A record that only has the three required strings yields a
  response, not an error, with every optional field at its default. Both project
  endpoints shape their records this way.
\<close>

theorem missing_fields_get_defaults:
  "(map_of p ''featured'' = None \<longrightarrow>
      ProjectResponse_of p = ProjectResponse_of (p @ [(''featured'', BBool False)]) \<and>
      (\<forall>r. ProjectResponse_of p = Inr r \<longrightarrow> ProjectResponse.featured r = False)) \<and>
   (map_of p ''tags'' = None \<longrightarrow>
      ProjectResponse_of p = ProjectResponse_of (p @ [(''tags'', BArr [])]) \<and>
      (\<forall>r. ProjectResponse_of p = Inr r \<longrightarrow> ProjectResponse.tags r = [])) \<and>
   (map_of p ''stack'' = None \<longrightarrow>
      ProjectResponse_of p = ProjectResponse_of (p @ [(''stack'', BArr [])]) \<and>
      (\<forall>r. ProjectResponse_of p = Inr r \<longrightarrow> ProjectResponse.stack r = [])) \<and>
   (\<forall>t s de.
      map_of p ''title'' = Some (BStr t) \<and> map_of p ''slug'' = Some (BStr s) \<and>
      map_of p ''description'' = Some (BStr de) \<and>
      map_of p ''tags'' = None \<and> map_of p ''stack'' = None \<and> map_of p ''impact'' = None \<and>
      map_of p ''cover_url'' = None \<and> map_of p ''github_url'' = None \<and>
      map_of p ''demo_url'' = None \<and> map_of p ''featured'' = None \<longrightarrow>
      ProjectResponse_of p =
        Inr \<lparr>ProjectResponse.title = t, slug = s, description = de, tags = [], stack = [],
             impact = None, cover_url = None, github_url = None, demo_url = None,
             featured = False\<rparr>) \<and>
   (\<forall>d. db st = Some d \<and> fault d = None \<longrightarrow>
      fst (get_project sl now st) =
        (case filter (matches [(''slug'', BStr sl)]) (collection (seeded now d) ''project'') of
           [] \<Rightarrow> Inl (HTTPException 404 ''Project not found'')
         | q # rest \<Rightarrow> ProjectResponse_of q) \<and>
      fst (list_projects None now st) =
        collect ProjectResponse_of (collection (seeded now d) ''project''))"
proof -
  have f1: "ProjectResponse_of p = ProjectResponse_of (p @ [(''featured'', BBool False)])"
    if "map_of p ''featured'' = None"
    using that
    by (simp add: ProjectResponse_of_def get_append_other get_default_append_other
          get_default_append_same get_default_missing)
  have f2: "ProjectResponse.featured r = False"
    if "map_of p ''featured'' = None" "ProjectResponse_of p = Inr r" for r
    using that(2) unfolding ProjectResponse_of_def get_default_missing [OF that(1)]
    by (auto dest!: sbind_Inr)
  have t1: "ProjectResponse_of p = ProjectResponse_of (p @ [(''tags'', BArr [])])"
    if "map_of p ''tags'' = None"
    using that
    by (simp add: ProjectResponse_of_def get_append_other get_default_append_other
          get_default_append_same get_default_missing)
  have t2: "ProjectResponse.tags r = []"
    if "map_of p ''tags'' = None" "ProjectResponse_of p = Inr r" for r
    using that(2) unfolding ProjectResponse_of_def get_default_missing [OF that(1)]
    by (auto dest!: sbind_Inr)
  have s1: "ProjectResponse_of p = ProjectResponse_of (p @ [(''stack'', BArr [])])"
    if "map_of p ''stack'' = None"
    using that
    by (simp add: ProjectResponse_of_def get_append_other get_default_append_other
          get_default_append_same get_default_missing)
  have s2: "ProjectResponse.stack r = []"
    if "map_of p ''stack'' = None" "ProjectResponse_of p = Inr r" for r
    using that(2) unfolding ProjectResponse_of_def get_default_missing [OF that(1)]
    by (auto dest!: sbind_Inr)
  have all: "ProjectResponse_of p =
        Inr \<lparr>ProjectResponse.title = t, slug = s, description = de, tags = [], stack = [],
             impact = None, cover_url = None, github_url = None, demo_url = None,
             featured = False\<rparr>"
    if "map_of p ''title'' = Some (BStr t)" "map_of p ''slug'' = Some (BStr s)"
      "map_of p ''description'' = Some (BStr de)"
      "map_of p ''tags'' = None" "map_of p ''stack'' = None" "map_of p ''impact'' = None"
      "map_of p ''cover_url'' = None" "map_of p ''github_url'' = None"
      "map_of p ''demo_url'' = None" "map_of p ''featured'' = None" for t s de
    using that
    by (simp add: ProjectResponse_of_def get_present get_missing get_default_missing sbind_def)
  have ep: "fst (get_project sl now st) =
        (case filter (matches [(''slug'', BStr sl)]) (collection (seeded now d) ''project'') of
           [] \<Rightarrow> Inl (HTTPException 404 ''Project not found'')
         | q # rest \<Rightarrow> ProjectResponse_of q) \<and>
      fst (list_projects None now st) =
        collect ProjectResponse_of (collection (seeded now d) ''project'')"
    if "db st = Some d" "fault d = None" for d
    by (simp add: get_project_ok [OF that] list_projects_ok [OF that])
  from f1 f2 t1 t2 s1 s2 all ep show ?thesis by blast
qed

text \<open>A stored record with only a title, a slug and a description.\<close>

theorem missing_fields_get_defaults_witness:
  "map_of sparse_doc ''featured'' = None \<and> map_of sparse_doc ''tags'' = None \<and>
   map_of sparse_doc ''stack'' = None \<and>
   db sparse_state = Some sparse_db \<and> fault sparse_db = None \<and>
   ProjectResponse_of sparse_doc =
     Inr \<lparr>ProjectResponse.title = ''Untitled'', slug = ''untitled'',
          description = ''No details yet'', tags = [], stack = [],
          impact = None, cover_url = None, github_url = None, demo_url = None,
          featured = False\<rparr> \<and>
   fst (get_project ''untitled'' 7 sparse_state) = ProjectResponse_of sparse_doc \<and>
   fst (list_projects None 7 sparse_state) = collect ProjectResponse_of [sparse_doc]"
proof -
  have m: "map_of sparse_doc ''title'' = Some (BStr ''Untitled'')"
    "map_of sparse_doc ''slug'' = Some (BStr ''untitled'')"
    "map_of sparse_doc ''description'' = Some (BStr ''No details yet'')"
    "map_of sparse_doc ''tags'' = None" "map_of sparse_doc ''stack'' = None"
    "map_of sparse_doc ''impact'' = None" "map_of sparse_doc ''cover_url'' = None"
    "map_of sparse_doc ''github_url'' = None" "map_of sparse_doc ''demo_url'' = None"
    "map_of sparse_doc ''featured'' = None"
    by (simp_all add: sparse_doc_def)
  have h: "db sparse_state = Some sparse_db" "fault sparse_db = None"
    by (simp_all add: sparse_state_def sparse_db_def)
  have c: "collection sparse_db ''project'' = [sparse_doc]"
    "collection sparse_db ''post'' \<noteq> []"
    by (simp_all add: collection_def sparse_db_def)
  have sd: "collection (seeded 7 sparse_db) ''project'' = [sparse_doc]"
    by (simp add: project_seeded c)
  have mt: "filter (matches [(''slug'', BStr ''untitled'')]) [sparse_doc] = [sparse_doc]"
    by (simp add: matches_def m)
  note t = missing_fields_get_defaults [of sparse_doc sparse_state "''untitled''" 7]
  from t m have a: "ProjectResponse_of sparse_doc =
     Inr \<lparr>ProjectResponse.title = ''Untitled'', slug = ''untitled'',
          description = ''No details yet'', tags = [], stack = [],
          impact = None, cover_url = None, github_url = None, demo_url = None,
          featured = False\<rparr>"
    by blast
  from t h have "fst (get_project ''untitled'' 7 sparse_state) =
        (case filter (matches [(''slug'', BStr ''untitled'')]) (collection (seeded 7 sparse_db) ''project'') of
           [] \<Rightarrow> Inl (HTTPException 404 ''Project not found'')
         | q # rest \<Rightarrow> ProjectResponse_of q)"
    by blast
  then have b: "fst (get_project ''untitled'' 7 sparse_state) = ProjectResponse_of sparse_doc"
    unfolding sd mt by simp
  from t h have "fst (list_projects None 7 sparse_state) =
        collect ProjectResponse_of (collection (seeded 7 sparse_db) ''project'')"
    by blast
  then have l: "fst (list_projects None 7 sparse_state) = collect ProjectResponse_of [sparse_doc]"
    by (simp only: sd)
  from m(4,5,10) h a b l show ?thesis by blast
qed

text \<open>
  C7. \<open>GET /test\<close> always returns a payload and never an error, whatever the handle is.
  With no handle, with a handle whose attribute read raises and with a store whose
  collection listing raises, the \<open>database\<close> field is a text that begins with the
  warning sign or the cross mark and names the failure; only a reachable store gives the
  text of success.
\<close>

theorem test_database_never_raises:
  "\<exists>r. test_database env handle = Inr r \<and>
     (handle = None \<longrightarrow>
        database r = warning_sign @ '' Available but not initialized'') \<and>
     (\<forall>d msg. handle = Some d \<and> name_attr d = AttributeRaises msg \<longrightarrow>
        database r = cross_mark @ '' Error: '' @ take_chars 80 msg) \<and>
     (\<forall>d msg. handle = Some d \<and> (\<forall>m. name_attr d \<noteq> AttributeRaises m) \<and> fault d = Some msg \<longrightarrow>
        database r = warning_sign @ '' Connected but Error: '' @ take_chars 80 msg) \<and>
     (\<forall>d. handle = Some d \<and> (\<forall>m. name_attr d \<noteq> AttributeRaises m) \<and> fault d = None \<longrightarrow>
        database r = check_mark @ '' Connected & Working'') \<and>
     (database r = check_mark @ '' Connected & Working'' \<or>
      take 6 (database r) = warning_sign \<or> take 3 (database r) = cross_mark)"
proof (cases handle)
  case None
  then show ?thesis
    by (simp add: test_database_def test_database_try_def warning_sign_def)
next
  case (Some d)
  show ?thesis
  proof (cases "name_attr d")
    case NoAttribute
    then show ?thesis
      using Some
      by (cases "fault d")
         (simp_all add: test_database_def test_database_try_def list_collection_names_def
            warning_sign_def)
  next
    case (Attribute n)
    then show ?thesis
      using Some
      by (cases "fault d")
         (simp_all add: test_database_def test_database_try_def list_collection_names_def
            warning_sign_def)
  next
    case (AttributeRaises msg)
    then show ?thesis
      using Some
      by (simp add: test_database_def test_database_try_def cross_mark_def)
  qed
qed

theorem test_database_never_raises_witness:
  "\<exists>r. test_database None (Some unreachable_db) = Inr r \<and>
     database r = warning_sign @ '' Connected but Error: localhost:27017: [Errno 111] Connection refused''"
proof -
  have n: "\<forall>m. name_attr unreachable_db \<noteq> AttributeRaises m"
    by (simp add: unreachable_db_def empty_db_def)
  have f: "fault unreachable_db = Some ''localhost:27017: [Errno 111] Connection refused''"
    by (simp add: unreachable_db_def)
  have t: "take_chars 80 ''localhost:27017: [Errno 111] Connection refused'' =
     ''localhost:27017: [Errno 111] Connection refused''"
    by (simp add: is_continuation_def)
  show ?thesis
    using test_database_never_raises [of None "Some unreachable_db"] n f t
    by auto
qed

text \<open>
  C8. With the empty string as the value of \<open>tag\<close>, \<open>GET /api/projects\<close> and
  \<open>GET /api/posts\<close> do what they do without \<open>tag\<close>: same result, same store, same
  calls. On a reachable store that result is built from every record of the collection.
\<close>

theorem empty_tag_is_no_tag:
  "list_projects (Some []) now st = list_projects None now st \<and>
   list_posts (Some []) now st = list_posts None now st \<and>
   (\<forall>d. db st = Some d \<and> fault d = None \<longrightarrow>
      fst (list_projects (Some []) now st) =
        collect ProjectResponse_of (collection (seeded now d) ''project'') \<and>
      fst (list_posts (Some []) now st) =
        collect PostResponse_of (collection (seeded now d) ''post''))"
proof -
  have a: "list_projects (Some []) now st = list_projects None now st"
    by (simp add: list_projects_def)
  have b: "list_posts (Some []) now st = list_posts None now st"
    by (simp add: list_posts_def)
  have c: "fst (list_projects (Some []) now st) =
        collect ProjectResponse_of (collection (seeded now d) ''project'')"
    if "db st = Some d" "fault d = None" for d
    by (simp add: list_projects_ok [OF that])
  have d: "fst (list_posts (Some []) now st) =
        collect PostResponse_of (collection (seeded now d) ''post'')"
    if "db st = Some d" "fault d = None" for d
    by (simp add: list_posts_ok [OF that])
  show ?thesis using a b c d by blast
qed

text \<open>On an empty reachable store both listings return every seeded record.\<close>

theorem empty_tag_is_no_tag_witness:
  "db empty_state = Some empty_db \<and> fault empty_db = None \<and>
   list_projects (Some []) 7 empty_state = list_projects None 7 empty_state \<and>
   fst (list_projects (Some []) 7 empty_state) =
     collect ProjectResponse_of (with_ids 0 (map Project_dict project_examples)) \<and>
   fst (list_posts (Some []) 7 empty_state) =
     collect PostResponse_of (with_ids 3 (map Post_dict (post_examples 7)))"
proof -
  have h: "db empty_state = Some empty_db \<and> fault empty_db = None"
    by (simp add: empty_state_def empty_db_def)
  have e: "collection empty_db ''project'' = []" "collection empty_db ''post'' = []"
      "next_oid empty_db = 0"
    by (simp_all add: collection_def empty_db_def)
  have l: "length project_examples = 3"
    by (simp add: project_examples_def)
  note t = empty_tag_is_no_tag [of 7 empty_state]
  from t have a: "list_projects (Some []) 7 empty_state = list_projects None 7 empty_state"
    by blast
  from t h have "fst (list_projects (Some []) 7 empty_state) =
      collect ProjectResponse_of (collection (seeded 7 empty_db) ''project'')"
    by blast
  then have b: "fst (list_projects (Some []) 7 empty_state) =
      collect ProjectResponse_of (with_ids 0 (map Project_dict project_examples))"
    by (simp add: project_seeded e)
  from t h have "fst (list_posts (Some []) 7 empty_state) =
      collect PostResponse_of (collection (seeded 7 empty_db) ''post'')"
    by blast
  then have c: "fst (list_posts (Some []) 7 empty_state) =
      collect PostResponse_of (with_ids 3 (map Post_dict (post_examples 7)))"
    by (simp add: post_seeded e l)
  from h a b c show ?thesis by blast
qed

text \<open>
  C9. When the store handle is \<open>None\<close>, the seed routine returns normally and leaves
  the state as it is: no count query and no insert is made. Each listing and detail
  handler then is its store query followed by the shaping of the response, and the
  query is the one call it makes.
\<close>

theorem ensure_seed_data_without_handle:
  assumes "db st = None"
  shows "ensure_seed_data now st = (Inr (), st) \<and>
    list_projects tag now st =
      and_then (get_documents ''project''
          (case tag of None \<Rightarrow> [] | Some t \<Rightarrow> if t \<noteq> [] then [(''tags'', BStr t)] else []) None)
        (\<lambda>projects. lift (collect ProjectResponse_of projects)) st \<and>
    get_project s now st =
      and_then (get_documents ''project'' [(''slug'', BStr s)] (Some 1))
        (\<lambda>projects. case projects of
            [] \<Rightarrow> raises (HTTPException 404 ''Project not found'')
          | p # rest \<Rightarrow> lift (ProjectResponse_of p)) st \<and>
    list_posts tag now st =
      and_then (get_documents ''post''
          (case tag of None \<Rightarrow> [] | Some t \<Rightarrow> if t \<noteq> [] then [(''tags'', BStr t)] else []) None)
        (\<lambda>posts. lift (collect PostResponse_of posts)) st \<and>
    get_post s now st =
      and_then (get_documents ''post'' [(''slug'', BStr s)] (Some 1))
        (\<lambda>posts. case posts of
            [] \<Rightarrow> raises (HTTPException 404 ''Post not found'')
          | po # rest \<Rightarrow> lift (PostResponse_of po)) st \<and>
    calls (snd (list_projects tag now st)) = calls st @
      [GetDocuments ''project''
         (case tag of None \<Rightarrow> [] | Some t \<Rightarrow> if t \<noteq> [] then [(''tags'', BStr t)] else []) None] \<and>
    calls (snd (get_project s now st)) = calls st @
      [GetDocuments ''project'' [(''slug'', BStr s)] (Some 1)] \<and>
    calls (snd (list_posts tag now st)) = calls st @
      [GetDocuments ''post''
         (case tag of None \<Rightarrow> [] | Some t \<Rightarrow> if t \<noteq> [] then [(''tags'', BStr t)] else []) None] \<and>
    calls (snd (get_post s now st)) = calls st @
      [GetDocuments ''post'' [(''slug'', BStr s)] (Some 1)]"
proof -
  have seed: "ensure_seed_data now st = (Inr (), st)"
    using assms by (simp add: ensure_seed_data_def returns_def)
  have q: "get_documents c filt limit st =
      (Inl NotInitialized, st\<lparr>calls := calls st @ [GetDocuments c filt limit]\<rparr>)" for c filt limit
    using assms by (simp add: get_documents_def log_call_def)
  show ?thesis
    by (simp add: seed list_projects_def get_project_def list_posts_def get_post_def
          and_then_def Let_def q)
qed

text \<open>A state without a handle.\<close>

theorem ensure_seed_data_without_handle_witness:
  "db uninitialized_state = None \<and>
   ensure_seed_data 7 uninitialized_state = (Inr (), uninitialized_state) \<and>
   calls (snd (list_projects (Some ''AI'') 7 uninitialized_state)) =
     [GetDocuments ''project'' [(''tags'', BStr ''AI'')] None] \<and>
   calls (snd (get_post ''low-latency-notes'' 7 uninitialized_state)) =
     [GetDocuments ''post'' [(''slug'', BStr ''low-latency-notes'')] (Some 1)]"
proof -
  have h: "db uninitialized_state = None"
    by (simp add: uninitialized_state_def)
  have c: "calls uninitialized_state = []"
    by (simp add: uninitialized_state_def)
  note t = ensure_seed_data_without_handle [OF h, of 7 "Some ''AI''" "''low-latency-notes''"]
  from t have a: "ensure_seed_data 7 uninitialized_state = (Inr (), uninitialized_state)"
    by blast
  from t have "calls (snd (list_projects (Some ''AI'') 7 uninitialized_state)) =
      calls uninitialized_state @
      [GetDocuments ''project''
         (case Some ''AI'' of None \<Rightarrow> [] | Some t \<Rightarrow> if t \<noteq> [] then [(''tags'', BStr t)] else []) None]"
    by blast
  then have b: "calls (snd (list_projects (Some ''AI'') 7 uninitialized_state)) =
      [GetDocuments ''project'' [(''tags'', BStr ''AI'')] None]"
    by (simp add: c)
  from t have "calls (snd (get_post ''low-latency-notes'' 7 uninitialized_state)) =
      calls uninitialized_state @
      [GetDocuments ''post'' [(''slug'', BStr ''low-latency-notes'')] (Some 1)]"
    by blast
  then have d: "calls (snd (get_post ''low-latency-notes'' 7 uninitialized_state)) =
      [GetDocuments ''post'' [(''slug'', BStr ''low-latency-notes'')] (Some 1)]"
    by (simp add: c)
  from h a b d show ?thesis by blast
qed

text \<open>
  C10. \<open>POST /api/contact\<close> never runs the seed routine and writes only to
  \<open>contactmessage\<close>: for every body and every state the \<open>project\<close> and \<open>post\<close>
  collections (every collection but \<open>contactmessage\<close>) are as before; a body the
  request model accepts leads to exactly one call, the insert of the contact message,
  and a rejected body to none.
\<close>

theorem post_contact_frame:
  assumes "post_contact valid_email body st = (r, st')"
  shows "(db st = None \<longrightarrow> db st' = None) \<and>
    (\<forall>d. db st = Some d \<longrightarrow>
       (\<exists>d'. db st' = Some d' \<and>
          collection d' ''project'' = collection d ''project'' \<and>
          collection d' ''post'' = collection d ''post'' \<and>
          (\<forall>c. c \<noteq> ''contactmessage'' \<longrightarrow> collection d' c = collection d c))) \<and>
    (\<forall>payload. ContactRequest_parse valid_email body = Inr payload \<longrightarrow>
       calls st' = calls st @ [CreateDocument ''contactmessage'' (ContactRequest_dict payload)]) \<and>
    (\<forall>e. ContactRequest_parse valid_email body = Inl e \<longrightarrow> calls st' = calls st)"
proof (cases "ContactRequest_parse valid_email body")
  case (Inl e)
  with assms have "st' = st"
    by (simp add: post_contact_cases)
  with Inl show ?thesis by simp
next
  case (Inr payload)
  obtain r0 st0 where c: "create_document ''contactmessage'' (ContactRequest_dict payload) st = (r0, st0)"
    by (cases "create_document ''contactmessage'' (ContactRequest_dict payload) st")
  with assms Inr have s: "st' = st0"
    by (cases r0) (simp_all add: post_contact_cases)
  have a: "calls st' = calls st @ [CreateDocument ''contactmessage'' (ContactRequest_dict payload)]"
    using create_document_frame(1) [OF c] s by simp
  have b: "db st = None \<longrightarrow> db st' = None"
    using create_document_frame(2) [OF c] s by simp
  have d: "\<exists>d'. db st' = Some d' \<and>
          collection d' ''project'' = collection d ''project'' \<and>
          collection d' ''post'' = collection d ''post'' \<and>
          (\<forall>c. c \<noteq> ''contactmessage'' \<longrightarrow> collection d' c = collection d c)"
    if "db st = Some d" for d
  proof -
    from create_document_frame(3) [OF c that] s obtain d' where
      d': "db st' = Some d'" "\<forall>c'. c' \<noteq> ''contactmessage'' \<longrightarrow> collection d' c' = collection d c'"
      by auto
    from d'(2) have "collection d' ''project'' = collection d ''project''"
      "collection d' ''post'' = collection d ''post''"
      by simp_all
    with d' show ?thesis by blast
  qed
  show ?thesis
    using a b d Inr by simp
qed

text \<open>A contact request after the store was seeded: both content collections stay.\<close>

theorem post_contact_frame_witness:
  "\<exists>d'. post_contact has_at_sign jane_body (snd (ensure_seed_data 7 empty_state)) =
       (Inr [(''status'', ''ok''), (''id'', ''000000000000000000000004'')],
        \<lparr>db = Some d',
         calls = calls (snd (ensure_seed_data 7 empty_state)) @ [CreateDocument ''contactmessage'' jane_body]\<rparr>) \<and>
     collection d' ''project'' = with_ids 0 (map Project_dict project_examples) \<and>
     collection d' ''post'' = with_ids 3 (map Post_dict (post_examples 7))"
proof -
  let ?st = "snd (ensure_seed_data 7 empty_state)"
  let ?d = "seeded 7 empty_db"
  let ?payload = "\<lparr>ContactRequest.name = ''Jane'', email = ''jane@example.com'', message = ''hi''\<rparr>"
  have h: "db empty_state = Some empty_db" "fault empty_db = None"
    by (simp_all add: empty_state_def empty_db_def)
  have st: "?st = empty_state\<lparr>db := Some ?d, calls := calls empty_state @ seed_calls 7 empty_db\<rparr>"
    by (simp add: ensure_seed_data_ok [OF h])
  have dbs: "db ?st = Some ?d"
    by (simp add: st)
  have e: "collection empty_db ''project'' = []" "collection empty_db ''post'' = []"
      "next_oid empty_db = 0"
    by (simp_all add: collection_def empty_db_def)
  have l: "length project_examples = 3" "length (post_examples 7) = 1"
    by (simp_all add: project_examples_def post_examples_def)
  have n: "next_oid ?d = 4"
    by (simp add: seeded_def e l collection_insert_each Let_def)
  have p: "ContactRequest_parse has_at_sign jane_body = Inr ?payload"
    by (simp add: ContactRequest_parse_def offending_fields_def str_field_def jane_body_def
          has_at_sign_def)
  have dd: "ContactRequest_dict ?payload = jane_body"
    by (simp add: ContactRequest_dict_def jane_body_def)
  have s4: "str_oid 4 = ''000000000000000000000004''"
    by code_simp
  obtain r st' where run: "post_contact has_at_sign jane_body ?st = (r, st')"
    by (cases "post_contact has_at_sign jane_body ?st")
  note t = post_contact_frame [OF run]
  from t dbs obtain d' where d': "db st' = Some d'"
    "collection d' ''project'' = collection ?d ''project''"
    "collection d' ''post'' = collection ?d ''post''"
    by blast
  from t p have cs: "calls st' = calls ?st @ [CreateDocument ''contactmessage'' jane_body]"
    by (simp add: dd)
  have f: "fault ?d = None"
    by (simp add: h)
  have r: "r = Inr [(''status'', ''ok''), (''id'', ''000000000000000000000004'')]"
    using run
    by (simp add: post_contact_cases p dd create_document_ok [OF dbs f] n s4)
  have full: "st' = \<lparr>db = Some d', calls = calls ?st @ [CreateDocument ''contactmessage'' jane_body]\<rparr>"
    using d'(1) cs by (cases st') simp
  have pj: "collection d' ''project'' = with_ids 0 (map Project_dict project_examples)"
    by (simp add: d'(2) project_seeded e)
  have po: "collection d' ''post'' = with_ids 3 (map Post_dict (post_examples 7))"
    by (simp add: d'(3) post_seeded e l)
  from run r full pj po show ?thesis by metis
qed

end
